theory Spec2Isabelle
  imports Main "HOL-Library.Word" "HOL-Library.Char_ord" "HOL-Library.List_Lexorder"
begin

unbundle bit_operations_syntax

section \<open>The query engine of freetsdb: expression to iterator construction\<close>

text \<open>
  A shallow embedding of the select planner (package influxql: \<open>Select\<close>,
  \<open>buildAuxIterators\<close>, \<open>buildFieldIterators\<close>, \<open>buildExprIterator\<close>, the three
  transform builders, \<open>binaryExprFunc\<close> and its two operator tables) and of the
  \<open>Close\<close>/\<open>Statistics\<close> methods of the storage tables (package reads).

  Go values are modelled as follows. An \<open>int64\<close> is a 64-bit word (arithmetic wraps).
  A \<open>float64\<close> is its IEEE-754 binary64 bit pattern, also a 64-bit word; the comparison
  with zero and the NaN test are defined on the bits, while rounding arithmetic and the
  order comparisons are the parameters \<open>float_arith\<close>. A pointer that may be nil is an
  option. A Go \<open>error\<close> return and a panic are both values of the type \<open>failure\<close>.
\<close>

subsection \<open>Numbers\<close>

type_synonym int64 = "64 word"
type_synonym float64 = "64 word"

text \<open>NaN: exponent bits all ones and a non-zero fraction.\<close>

definition float64_isNaN :: "float64 \<Rightarrow> bool" where
  "float64_isNaN x \<longleftrightarrow>
     (x AND 0x7FF0000000000000 = 0x7FF0000000000000 \<and> x AND 0x000FFFFFFFFFFFFF \<noteq> 0)"

text \<open>A zero of either sign: every bit but the sign bit is clear.\<close>

definition float64_isZero :: "float64 \<Rightarrow> bool" where
  "float64_isZero x \<longleftrightarrow> x AND 0x7FFFFFFFFFFFFFFF = 0"

text \<open>Go's \<open>==\<close> on float64: NaN equals nothing, the two zeros are equal.\<close>

definition float64_eq :: "float64 \<Rightarrow> float64 \<Rightarrow> bool" where
  "float64_eq x y \<longleftrightarrow>
     (if float64_isNaN x then False
      else if float64_isNaN y then False
      else if float64_isZero x then float64_isZero y
      else x = y)"

text \<open>
  The float operations of the Go runtime that the operator tables use: \<open>+ - * /\<close>,
  \<open>< <= > >=\<close> and the conversion \<open>float64(int64)\<close>.
\<close>

record float_arith =
  fadd :: "float64 \<Rightarrow> float64 \<Rightarrow> float64"
  fsub :: "float64 \<Rightarrow> float64 \<Rightarrow> float64"
  fmul :: "float64 \<Rightarrow> float64 \<Rightarrow> float64"
  fdiv :: "float64 \<Rightarrow> float64 \<Rightarrow> float64"
  flt :: "float64 \<Rightarrow> float64 \<Rightarrow> bool"
  flte :: "float64 \<Rightarrow> float64 \<Rightarrow> bool"
  fgt :: "float64 \<Rightarrow> float64 \<Rightarrow> bool"
  fgte :: "float64 \<Rightarrow> float64 \<Rightarrow> bool"
  float64_of_int64 :: "int64 \<Rightarrow> float64"

subsection \<open>Data types, tokens and the operator tables\<close>

datatype DataType = Float | Integer | String | Boolean | Unknown

text \<open>
  The operator tokens that the tables switch on; \<open>OtherToken\<close> stands for every other
  token of the lexer (the token type is declared outside the files at hand).
\<close>

datatype Token = ADD | SUB | MUL | DIV | EQ | NEQ | LT | LTE | GT | GTE | OtherToken nat

text \<open>
  The value \<open>binaryExprFunc\<close> returns is an \<open>interface{}\<close> holding a function of one of
  five Go types, or nil. The constructor is the dynamic type that the builders switch on.
\<close>

datatype binfn =
    FloatFloat "float64 \<Rightarrow> float64 \<Rightarrow> float64"
  | IntegerFloat "int64 \<Rightarrow> int64 \<Rightarrow> float64"
  | IntegerInteger "int64 \<Rightarrow> int64 \<Rightarrow> int64"
  | FloatBool "float64 \<Rightarrow> float64 \<Rightarrow> bool"
  | IntegerBool "int64 \<Rightarrow> int64 \<Rightarrow> bool"

fun floatBinaryExprFunc :: "float_arith \<Rightarrow> Token \<Rightarrow> binfn option" where
  "floatBinaryExprFunc fa ADD = Some (FloatFloat (\<lambda>lhs rhs. fadd fa lhs rhs))"
| "floatBinaryExprFunc fa SUB = Some (FloatFloat (\<lambda>lhs rhs. fsub fa lhs rhs))"
| "floatBinaryExprFunc fa MUL = Some (FloatFloat (\<lambda>lhs rhs. fmul fa lhs rhs))"
| "floatBinaryExprFunc fa DIV =
     Some (FloatFloat (\<lambda>lhs rhs. if float64_eq rhs 0 then 0 else fdiv fa lhs rhs))"
| "floatBinaryExprFunc fa EQ = Some (FloatBool (\<lambda>lhs rhs. float64_eq lhs rhs))"
| "floatBinaryExprFunc fa NEQ = Some (FloatBool (\<lambda>lhs rhs. \<not> float64_eq lhs rhs))"
| "floatBinaryExprFunc fa LT = Some (FloatBool (\<lambda>lhs rhs. flt fa lhs rhs))"
| "floatBinaryExprFunc fa LTE = Some (FloatBool (\<lambda>lhs rhs. flte fa lhs rhs))"
| "floatBinaryExprFunc fa GT = Some (FloatBool (\<lambda>lhs rhs. fgt fa lhs rhs))"
| "floatBinaryExprFunc fa GTE = Some (FloatBool (\<lambda>lhs rhs. fgte fa lhs rhs))"
| "floatBinaryExprFunc fa (OtherToken t) = None"

fun integerBinaryExprFunc :: "float_arith \<Rightarrow> Token \<Rightarrow> binfn option" where
  "integerBinaryExprFunc fa ADD = Some (IntegerInteger (\<lambda>lhs rhs. lhs + rhs))"
| "integerBinaryExprFunc fa SUB = Some (IntegerInteger (\<lambda>lhs rhs. lhs - rhs))"
| "integerBinaryExprFunc fa MUL = Some (IntegerInteger (\<lambda>lhs rhs. lhs * rhs))"
| "integerBinaryExprFunc fa DIV =
     Some (IntegerFloat (\<lambda>lhs rhs.
       if rhs = 0 then 0 else fdiv fa (float64_of_int64 fa lhs) (float64_of_int64 fa rhs)))"
| "integerBinaryExprFunc fa EQ = Some (IntegerBool (\<lambda>lhs rhs. lhs = rhs))"
| "integerBinaryExprFunc fa NEQ = Some (IntegerBool (\<lambda>lhs rhs. lhs \<noteq> rhs))"
| "integerBinaryExprFunc fa LT = Some (IntegerBool (\<lambda>lhs rhs. sint lhs < sint rhs))"
| "integerBinaryExprFunc fa LTE = Some (IntegerBool (\<lambda>lhs rhs. sint lhs \<le> sint rhs))"
| "integerBinaryExprFunc fa GT = Some (IntegerBool (\<lambda>lhs rhs. sint lhs > sint rhs))"
| "integerBinaryExprFunc fa GTE = Some (IntegerBool (\<lambda>lhs rhs. sint lhs \<ge> sint rhs))"
| "integerBinaryExprFunc fa (OtherToken t) = None"

definition binaryExprFunc :: "float_arith \<Rightarrow> DataType \<Rightarrow> DataType \<Rightarrow> Token \<Rightarrow> binfn option" where
  "binaryExprFunc fa typ1 typ2 op =
     (case typ1 of
        Float \<Rightarrow> floatBinaryExprFunc fa op
      | Integer \<Rightarrow>
          (case typ2 of
             Float \<Rightarrow> floatBinaryExprFunc fa op
           | _ \<Rightarrow> integerBinaryExprFunc fa op)
      | _ \<Rightarrow> None)"

subsection \<open>Points\<close>

text \<open>
  One auxiliary value of a point: a typed scalar or null.
\<close>

datatype auxval = AuxFloat float64 | AuxInteger int64 | AuxString string | AuxBoolean bool | AuxNull

text \<open>
  \<open>FloatPoint\<close>, \<open>IntegerPoint\<close> and \<open>BooleanPoint\<close> are the three instances of this
  record. The field \<open>Nil\<close> of the source is \<open>Nil_flag\<close> here.
\<close>

record 'v Point =
  Name :: string
  Tags :: "(string \<times> string) list"
  Time :: int64
  Value :: 'v
  Nil_flag :: bool
  Aux :: "auxval list"

datatype panic = NilPointerDereference | IndexOutOfRange | TypeAssertion | Unreachable

subsection \<open>The point functions of the transform iterators\<close>

text \<open>
  Each builder stores a closure \<open>fn\<close> in the iterator it returns. The closures are
  written here as functions of the operator function they capture. A \<open>*FloatPoint\<close>
  argument is an option; writing through a nil pointer is the panic
  \<open>NilPointerDereference\<close>. The closures that return their argument mutate it in
  place; the model returns the updated record.
\<close>

text \<open>\<open>floatTransformIterator.fn\<close> of \<open>buildRHSTransformIterator\<close>: \<open>fn(p.Value, lit.Val)\<close>.\<close>

definition floatTransformRHS_fn ::
  "(float64 \<Rightarrow> float64 \<Rightarrow> float64) \<Rightarrow> float64 \<Rightarrow> float64 Point option \<Rightarrow> float64 Point option" where
  "floatTransformRHS_fn fn lit p =
     (case p of
        None \<Rightarrow> None
      | Some q \<Rightarrow> if Nil_flag q then Some q else Some (q\<lparr>Value := fn (Value q) lit\<rparr>))"

definition floatBoolTransformRHS_fn ::
  "(float64 \<Rightarrow> float64 \<Rightarrow> bool) \<Rightarrow> float64 \<Rightarrow> float64 Point option \<Rightarrow> bool Point option" where
  "floatBoolTransformRHS_fn fn lit p =
     (case p of
        None \<Rightarrow> None
      | Some q \<Rightarrow>
          (let bp = \<lparr>Name = Name q, Tags = Tags q, Time = Time q, Value = False,
                     Nil_flag = False, Aux = Aux q\<rparr>
           in if Nil_flag q then Some (bp\<lparr>Nil_flag := True\<rparr>)
              else Some (bp\<lparr>Value := fn (Value q) lit\<rparr>)))"

text \<open>The same two closures in \<open>buildLHSTransformIterator\<close>: \<open>fn(lit.Val, p.Value)\<close>.\<close>

definition floatTransformLHS_fn ::
  "(float64 \<Rightarrow> float64 \<Rightarrow> float64) \<Rightarrow> float64 \<Rightarrow> float64 Point option \<Rightarrow> float64 Point option" where
  "floatTransformLHS_fn fn lit p =
     (case p of
        None \<Rightarrow> None
      | Some q \<Rightarrow> if Nil_flag q then Some q else Some (q\<lparr>Value := fn lit (Value q)\<rparr>))"

definition floatBoolTransformLHS_fn ::
  "(float64 \<Rightarrow> float64 \<Rightarrow> bool) \<Rightarrow> float64 \<Rightarrow> float64 Point option \<Rightarrow> bool Point option" where
  "floatBoolTransformLHS_fn fn lit p =
     (case p of
        None \<Rightarrow> None
      | Some q \<Rightarrow>
          (let bp = \<lparr>Name = Name q, Tags = Tags q, Time = Time q, Value = False,
                     Nil_flag = False, Aux = Aux q\<rparr>
           in if Nil_flag q then Some (bp\<lparr>Nil_flag := True\<rparr>)
              else Some (bp\<lparr>Value := fn lit (Value q)\<rparr>)))"

text \<open>
  \<open>floatExprIterator.fn\<close> and \<open>integerExprIterator.fn\<close> have the same body, at the two
  value types; \<open>0\<close> is \<open>float64(0)\<close> in the first and \<open>int64(0)\<close> in the second. In the
  last branch \<open>a\<close> is nil, and the write \<open>b.Value = 0\<close> dereferences \<open>b\<close>.
\<close>

definition exprIterator_fn ::
  "(64 word \<Rightarrow> 64 word \<Rightarrow> 64 word) \<Rightarrow> (64 word) Point option \<Rightarrow> (64 word) Point option
     \<Rightarrow> panic + (64 word) Point" where
  "exprIterator_fn fn a b =
     (case a of
        Some pa \<Rightarrow>
          (case b of
             Some pb \<Rightarrow>
               if \<not> Nil_flag pa \<and> \<not> Nil_flag pb then Inr (pa\<lparr>Value := fn (Value pa) (Value pb)\<rparr>)
               else if Nil_flag pa then Inr pa
               else Inr pb
           | None \<Rightarrow> Inr (pa\<lparr>Value := 0, Nil_flag := True\<rparr>))
      | None \<Rightarrow>
          (case b of
             Some pb \<Rightarrow> Inr (pb\<lparr>Value := 0, Nil_flag := True\<rparr>)
           | None \<Rightarrow> Inl NilPointerDereference))"

definition floatExprIterator_fn ::
  "(float64 \<Rightarrow> float64 \<Rightarrow> float64) \<Rightarrow> float64 Point option \<Rightarrow> float64 Point option
     \<Rightarrow> panic + float64 Point" where
  "floatExprIterator_fn = exprIterator_fn"

definition integerExprIterator_fn ::
  "(int64 \<Rightarrow> int64 \<Rightarrow> int64) \<Rightarrow> int64 Point option \<Rightarrow> int64 Point option
     \<Rightarrow> panic + int64 Point" where
  "integerExprIterator_fn = exprIterator_fn"

text \<open>
  \<open>integerFloatExprIterator.fn\<close>, \<open>floatBooleanExprIterator.fn\<close> and
  \<open>integerBooleanExprIterator.fn\<close> have the same body too: the output point is
  allocated first, from the fields of \<open>a\<close>, before any test of \<open>a\<close> against nil. \<open>zero\<close> is
  the zero value of the output's \<open>Value\<close> field.
\<close>

definition convExprIterator_fn ::
  "'w \<Rightarrow> ('v \<Rightarrow> 'v \<Rightarrow> 'w) \<Rightarrow> 'v Point option \<Rightarrow> 'v Point option \<Rightarrow> panic + 'w Point" where
  "convExprIterator_fn zero fn a b =
     (case a of
        None \<Rightarrow> Inl NilPointerDereference
      | Some pa \<Rightarrow>
          (let p = \<lparr>Name = Name pa, Tags = Tags pa, Time = Time pa, Value = zero,
                    Nil_flag = False, Aux = Aux pa\<rparr>
           in case b of
                Some pb \<Rightarrow>
                  if \<not> Nil_flag pa \<and> \<not> Nil_flag pb then Inr (p\<lparr>Value := fn (Value pa) (Value pb)\<rparr>)
                  else Inr (p\<lparr>Nil_flag := True\<rparr>)
              | None \<Rightarrow> Inr (p\<lparr>Nil_flag := True\<rparr>)))"

definition integerFloatExprIterator_fn ::
  "(int64 \<Rightarrow> int64 \<Rightarrow> float64) \<Rightarrow> int64 Point option \<Rightarrow> int64 Point option
     \<Rightarrow> panic + float64 Point" where
  "integerFloatExprIterator_fn = convExprIterator_fn 0"

definition floatBooleanExprIterator_fn ::
  "(float64 \<Rightarrow> float64 \<Rightarrow> bool) \<Rightarrow> float64 Point option \<Rightarrow> float64 Point option
     \<Rightarrow> panic + bool Point" where
  "floatBooleanExprIterator_fn = convExprIterator_fn False"

definition integerBooleanExprIterator_fn ::
  "(int64 \<Rightarrow> int64 \<Rightarrow> bool) \<Rightarrow> int64 Point option \<Rightarrow> int64 Point option
     \<Rightarrow> panic + bool Point" where
  "integerBooleanExprIterator_fn = convExprIterator_fn False"

subsection \<open>The statement AST and the iterator options\<close>

text \<open>
  Modelled from the spec: the node variants of the AST (the declarations are outside the
  files at hand): \<open>VarRef(Val)\<close>, \<open>Call(Name, Args)\<close>, \<open>BinaryExpr(Op, LHS, RHS)\<close>,
  \<open>ParenExpr(Expr)\<close> and the literal variants \<open>NumberLiteral(Val: float64)\<close>,
  \<open>IntegerLiteral(Val: int64)\<close>, \<open>StringLiteral\<close>, \<open>BooleanLiteral\<close>.
\<close>

datatype expr =
    VarRef string
  | Call string "expr list"
  | BinaryExpr Token expr expr
  | ParenExpr expr
  | NumberLiteral float64
  | IntegerLiteral int64
  | StringLiteral string
  | BooleanLiteral bool

text \<open>The type assertion \<open>e.(Literal)\<close> succeeds on the literal variants.\<close>

fun isLiteral :: "expr \<Rightarrow> bool" where
  "isLiteral (NumberLiteral v) = True"
| "isLiteral (IntegerLiteral v) = True"
| "isLiteral (StringLiteral v) = True"
| "isLiteral (BooleanLiteral v) = True"
| "isLiteral e = False"

fun literalDataType :: "expr \<Rightarrow> DataType" where
  "literalDataType (NumberLiteral v) = Float"
| "literalDataType (StringLiteral v) = String"
| "literalDataType (BooleanLiteral v) = Boolean"
| "literalDataType e = Unknown"

record Field =
  Expr :: expr

record SelectStatement =
  Fields :: "Field list"

record SelectOptions =
  MinTime :: int
  MaxTime :: int

text \<open>
  Modelled from the spec: \<open>Interval\<close> is \<open>(Duration, Offset)\<close>, and \<open>IsZero\<close> holds iff
  \<open>Duration == 0\<close>.
\<close>

record Interval =
  Duration :: int
  Offset :: int

definition IsZero :: "Interval \<Rightarrow> bool" where
  "IsZero i \<longleftrightarrow> Duration i = 0"

datatype FillOption = NullFill | NoFill | NumberFill | PreviousFill | LinearFill

text \<open>
  The fields of \<open>IteratorOptions\<close> that the planner reads or writes, each prefixed with
  \<open>opt_\<close>. \<open>opt_Expr\<close> is None while the options name no expression. The remaining
  fields of the struct are only handed through to the storage.
\<close>

record IteratorOptions =
  opt_Expr :: "expr option"
  opt_Aux :: "string list"
  opt_Interval :: Interval
  opt_StartTime :: int
  opt_EndTime :: int
  opt_Fill :: FillOption
  opt_Dedupe :: bool
  opt_Limit :: int
  opt_Offset :: int

subsection \<open>Iterators\<close>

text \<open>
  An iterator value is the term that says how it was constructed. The constructors
  written in lower case are the struct literals that the three transform builders
  return, with the closure they store. Every other constructor stands for the value a
  constructor function outside the files at hand (\<open>NewIntervalIterator\<close>,
  \<open>NewFillIterator\<close>, \<open>newTopIterator\<close>, ...) returns for these arguments;
  \<open>StorageIterator\<close> is a leaf of the storage, of the given type, and
  \<open>AuxFieldIterator aitr name\<close> is the handle \<open>aitr.Iterator(name)\<close>.
\<close>

type_synonym SeriesList = "(string \<times> (string \<times> string) list) list"

datatype iterator =
    StorageIterator DataType IteratorOptions
  | DedupeIterator iterator
  | LimitIterator iterator IteratorOptions
  | AuxIterator iterator SeriesList IteratorOptions
  | AuxFieldIterator iterator string
  | DistinctIterator iterator IteratorOptions
  | IntervalIterator iterator IteratorOptions
  | FillIterator iterator expr IteratorOptions
  | DerivativeIterator iterator IteratorOptions Interval bool
  | CountIterator iterator IteratorOptions
  | MedianIterator iterator IteratorOptions
  | StddevIterator iterator IteratorOptions
  | SpreadIterator iterator IteratorOptions
  | TopIterator iterator IteratorOptions float64 "nat list"
  | BottomIterator iterator IteratorOptions float64 "nat list"
  | PercentileIterator iterator IteratorOptions float64
  | integerFloatCastIterator iterator
  | bufFloatIterator iterator
  | bufIntegerIterator iterator
  | floatTransformIterator iterator "float64 Point option \<Rightarrow> float64 Point option"
  | floatBoolTransformIterator iterator "float64 Point option \<Rightarrow> bool Point option"
  | floatExprIterator iterator iterator
      "float64 Point option \<Rightarrow> float64 Point option \<Rightarrow> panic + float64 Point"
  | integerFloatExprIterator iterator iterator
      "int64 Point option \<Rightarrow> int64 Point option \<Rightarrow> panic + float64 Point"
  | integerExprIterator iterator iterator
      "int64 Point option \<Rightarrow> int64 Point option \<Rightarrow> panic + int64 Point"
  | floatBooleanExprIterator iterator iterator
      "float64 Point option \<Rightarrow> float64 Point option \<Rightarrow> panic + bool Point"
  | integerBooleanExprIterator iterator iterator
      "int64 Point option \<Rightarrow> int64 Point option \<Rightarrow> panic + bool Point"

subsection \<open>Errors, panics and the calls that leave the planner\<close>

text \<open>
  One constructor for each error the planner creates; the comment gives the format
  string. \<open>%T\<close> arguments that print the Go type of an operand are left out of
  \<open>ErrTypeMismatch\<close> and of the three \<open>unable to construct ... transform iterator\<close> errors.
  \<open>ErrExternal\<close> is an error value returned by a function outside the files at hand
  (the storage, a constructor), with its message.
\<close>

datatype side = LHS | RHS

datatype error =
    ErrMultipleAggregates
      \<comment> \<open>cannot select fields when selecting multiple aggregates\<close>
  | ErrFieldIterator Field error
      \<comment> \<open>error constructing iterator for field '%s': %s (the field, for \<open>f.String()\<close>)\<close>
  | ErrTopArguments nat
      \<comment> \<open>top() requires 2 or more arguments, got %d\<close>
  | ErrBottomArguments nat
      \<comment> \<open>bottom() requires 2 or more arguments, got %d\<close>
  | ErrUnsupportedCall string
      \<comment> \<open>unsupported call: %s\<close>
  | ErrTwoLiterals expr expr
      \<comment> \<open>unable to construct an iterator from two literals: LHS: %T, RHS: %T\<close>
  | ErrInvalidExpressionType expr
      \<comment> \<open>invalid expression type: %T\<close>
  | ErrTypeMismatch side string
      \<comment> \<open>type mismatch on LHS/RHS, unable to use %T as a FloatIterator/...\<close>
  | ErrRHSTransform
      \<comment> \<open>unable to construct rhs transform iterator from %T and %T\<close>
  | ErrLHSTransform
      \<comment> \<open>unable to construct lhs transform iterator from %T and %T\<close>
  | ErrTransform
      \<comment> \<open>unable to construct transform iterator from %T and %T\<close>
  | ErrExternal string

datatype failure = Error error | Panic panic

text \<open>
  The method calls on values the planner does not own, in the order they are made. A
  planner function returns its Go result together with this trace.
\<close>

datatype event =
    CreateIteratorCall IteratorOptions
  | SeriesKeysCall IteratorOptions
  | IteratorCall iterator string
  | CloseCall iterator
  | BackgroundCall iterator
  | StartCall iterator

type_synonym 'a result = "(failure + 'a) \<times> event list"

text \<open>
  The interface \<open>IteratorCreator\<close>: what \<open>CreateIterator\<close> and \<open>SeriesKeys\<close> return for
  given options, \<open>Inl\<close> with the message when they return an error.
\<close>

record IteratorCreator =
  CreateIterator :: "IteratorOptions \<Rightarrow> string + iterator"
  SeriesKeys :: "IteratorOptions \<Rightarrow> string + SeriesList"

text \<open>
  The struct that \<open>newSelectInfo\<close> returns. Its two Go maps are keyed by node, so every
  node counts once; they are lists here: a call as its name and arguments, a reference
  as its name (the order in which Go ranges over a map is not specified).
\<close>

record selectInfo =
  calls :: "(string \<times> expr list) list"
  refs :: "string list"

text \<open>
  The functions and declarations the planner uses that are outside the files at hand,
  as parameters:
  \<^item> \<open>arith\<close>: the float operations;
  \<^item> \<open>Reduce\<close>: \<open>Reduce(expr, nil)\<close>, constant folding;
    \<open>ContainsVarRef\<close>;
  \<^item> \<open>newIteratorOptionsStmt\<close>, \<open>newSelectInfo\<close>, \<open>DerivativeInterval\<close>:
    \<open>opt.DerivativeInterval()\<close>, and the constants \<open>MinTime_const\<close>, \<open>MaxTime_const\<close>;
  \<^item> \<open>iteratorType\<close>: which of the interfaces \<open>FloatIterator\<close>, \<open>IntegerIterator\<close>,
    \<open>StringIterator\<close>, \<open>BooleanIterator\<close> an iterator value implements (\<open>Unknown\<close>: none);
  \<^item> \<open>constructorError\<close>: the error that a constructor function with an error result
    (\<open>NewDistinctIterator\<close>, \<open>newDerivativeIterator\<close>, \<open>newCountIterator\<close>,
    \<open>newMedianIterator\<close>, \<open>newStddevIterator\<close>, \<open>newSpreadIterator\<close>, \<open>newTopIterator\<close>,
    \<open>newBottomIterator\<close>, \<open>newPercentileIterator\<close>) returns in place of the given
    iterator, None when it returns the iterator;
  \<^item> \<open>auxCreateIterator\<close>, \<open>auxSeriesKeys\<close>: the \<open>IteratorCreator\<close> methods of an aux
    iterator.
\<close>

record env =
  arith :: float_arith
  Reduce :: "expr \<Rightarrow> expr"
  ContainsVarRef :: "expr \<Rightarrow> bool"
  newIteratorOptionsStmt :: "SelectStatement \<Rightarrow> SelectOptions \<Rightarrow> string + IteratorOptions"
  newSelectInfo :: "SelectStatement \<Rightarrow> selectInfo"
  DerivativeInterval :: "IteratorOptions \<Rightarrow> Interval"
  MinTime_const :: int
  MaxTime_const :: int
  iteratorType :: "iterator \<Rightarrow> DataType"
  constructorError :: "iterator \<Rightarrow> string option"
  auxCreateIterator :: "iterator \<Rightarrow> IteratorOptions \<Rightarrow> string + iterator"
  auxSeriesKeys :: "iterator \<Rightarrow> IteratorOptions \<Rightarrow> string + SeriesList"

definition iteratorDataType :: "env \<Rightarrow> iterator \<Rightarrow> DataType" where
  "iteratorDataType env itr = iteratorType env itr"

text \<open>A call of a constructor function that returns \<open>(Iterator, error)\<close>.\<close>

definition construct :: "env \<Rightarrow> iterator \<Rightarrow> failure + iterator" where
  "construct env itr =
     (case constructorError env itr of
        Some msg \<Rightarrow> Inl (Error (ErrExternal msg))
      | None \<Rightarrow> Inr itr)"

text \<open>The call \<open>ic.CreateIterator(opt)\<close>.\<close>

definition callCreateIterator :: "IteratorCreator \<Rightarrow> IteratorOptions \<Rightarrow> iterator result" where
  "callCreateIterator ic opt =
     (case CreateIterator ic opt of
        Inl msg \<Rightarrow> (Inl (Error (ErrExternal msg)), [CreateIteratorCall opt])
      | Inr itr \<Rightarrow> (Inr itr, [CreateIteratorCall opt]))"

text \<open>An aux iterator, used as the \<open>IteratorCreator\<close> it also is.\<close>

definition auxCreator :: "env \<Rightarrow> iterator \<Rightarrow> IteratorCreator" where
  "auxCreator env aitr =
     \<lparr>CreateIterator = auxCreateIterator env aitr, SeriesKeys = auxSeriesKeys env aitr\<rparr>"

subsection \<open>The transform builders\<close>

text \<open>
  The type switch \<open>case FloatIterator: ...; case IntegerIterator: cast; default: error\<close>
  that selects a float input, and the assertion \<open>itr.(IntegerIterator)\<close>. The string is
  the interface named in the error message.
\<close>

definition asFloatIterator :: "env \<Rightarrow> side \<Rightarrow> iterator \<Rightarrow> failure + iterator" where
  "asFloatIterator env sd itr =
     (case iteratorDataType env itr of
        Float \<Rightarrow> Inr itr
      | Integer \<Rightarrow> Inr (integerFloatCastIterator itr)
      | _ \<Rightarrow> Inl (Error (ErrTypeMismatch sd ''FloatIterator'')))"

definition asIntegerIterator :: "env \<Rightarrow> side \<Rightarrow> iterator \<Rightarrow> failure + iterator" where
  "asIntegerIterator env sd itr =
     (case iteratorDataType env itr of
        Integer \<Rightarrow> Inr itr
      | _ \<Rightarrow> Inl (Error (ErrTypeMismatch sd ''IntegerIterator'')))"

definition buildRHSTransformIterator :: "env \<Rightarrow> iterator \<Rightarrow> expr \<Rightarrow> Token \<Rightarrow> failure + iterator" where
  "buildRHSTransformIterator env lhs rhs op =
     (case binaryExprFunc (arith env) (iteratorDataType env lhs) (literalDataType rhs) op of
        Some (FloatFloat fn) \<Rightarrow>
          (case asFloatIterator env LHS lhs of
             Inl e \<Rightarrow> Inl e
           | Inr input \<Rightarrow>
               (case rhs of
                  NumberLiteral lit \<Rightarrow> Inr (floatTransformIterator input (floatTransformRHS_fn fn lit))
                | _ \<Rightarrow> Inl (Error (ErrTypeMismatch RHS ''NumberLiteral''))))
      | Some (FloatBool fn) \<Rightarrow>
          (case asFloatIterator env LHS lhs of
             Inl e \<Rightarrow> Inl e
           | Inr input \<Rightarrow>
               (case rhs of
                  NumberLiteral lit \<Rightarrow>
                    Inr (floatBoolTransformIterator input (floatBoolTransformRHS_fn fn lit))
                | _ \<Rightarrow> Inl (Error (ErrTypeMismatch RHS ''NumberLiteral''))))
      | _ \<Rightarrow> Inl (Error ErrRHSTransform))"

definition buildLHSTransformIterator :: "env \<Rightarrow> expr \<Rightarrow> iterator \<Rightarrow> Token \<Rightarrow> failure + iterator" where
  "buildLHSTransformIterator env lhs rhs op =
     (case binaryExprFunc (arith env) (literalDataType lhs) (iteratorDataType env rhs) op of
        Some (FloatFloat fn) \<Rightarrow>
          (case asFloatIterator env RHS rhs of
             Inl e \<Rightarrow> Inl e
           | Inr input \<Rightarrow>
               (case lhs of
                  NumberLiteral lit \<Rightarrow> Inr (floatTransformIterator input (floatTransformLHS_fn fn lit))
                | _ \<Rightarrow> Inl (Error (ErrTypeMismatch LHS ''NumberLiteral''))))
      | Some (FloatBool fn) \<Rightarrow>
          (case asFloatIterator env RHS rhs of
             Inl e \<Rightarrow> Inl e
           | Inr input \<Rightarrow>
               (case lhs of
                  NumberLiteral lit \<Rightarrow>
                    Inr (floatBoolTransformIterator input (floatBoolTransformLHS_fn fn lit))
                | _ \<Rightarrow> Inl (Error (ErrTypeMismatch LHS ''NumberLiteral''))))
      | _ \<Rightarrow> Inl (Error ErrLHSTransform))"

text \<open>
  In the last case of the source the message for a right operand that is not an
  \<open>IntegerIterator\<close> says \<open>LHS\<close>; the model keeps it.
\<close>

definition buildTransformIterator :: "env \<Rightarrow> iterator \<Rightarrow> iterator \<Rightarrow> Token \<Rightarrow> failure + iterator" where
  "buildTransformIterator env lhs rhs op =
     (case binaryExprFunc (arith env) (iteratorDataType env lhs) (iteratorDataType env rhs) op of
        Some (FloatFloat fn) \<Rightarrow>
          (case asFloatIterator env LHS lhs of
             Inl e \<Rightarrow> Inl e
           | Inr left \<Rightarrow>
               (case asFloatIterator env RHS rhs of
                  Inl e \<Rightarrow> Inl e
                | Inr right \<Rightarrow>
                    Inr (floatExprIterator (bufFloatIterator left) (bufFloatIterator right)
                           (floatExprIterator_fn fn))))
      | Some (IntegerFloat fn) \<Rightarrow>
          (case asIntegerIterator env LHS lhs of
             Inl e \<Rightarrow> Inl e
           | Inr left \<Rightarrow>
               (case asIntegerIterator env RHS rhs of
                  Inl e \<Rightarrow> Inl e
                | Inr right \<Rightarrow>
                    Inr (integerFloatExprIterator (bufIntegerIterator left) (bufIntegerIterator right)
                           (integerFloatExprIterator_fn fn))))
      | Some (IntegerInteger fn) \<Rightarrow>
          (case asIntegerIterator env LHS lhs of
             Inl e \<Rightarrow> Inl e
           | Inr left \<Rightarrow>
               (case asIntegerIterator env RHS rhs of
                  Inl e \<Rightarrow> Inl e
                | Inr right \<Rightarrow>
                    Inr (integerExprIterator (bufIntegerIterator left) (bufIntegerIterator right)
                           (integerExprIterator_fn fn))))
      | Some (FloatBool fn) \<Rightarrow>
          (case asFloatIterator env LHS lhs of
             Inl e \<Rightarrow> Inl e
           | Inr left \<Rightarrow>
               (case asFloatIterator env RHS rhs of
                  Inl e \<Rightarrow> Inl e
                | Inr right \<Rightarrow>
                    Inr (floatBooleanExprIterator (bufFloatIterator left) (bufFloatIterator right)
                           (floatBooleanExprIterator_fn fn))))
      | Some (IntegerBool fn) \<Rightarrow>
          (case asIntegerIterator env LHS lhs of
             Inl e \<Rightarrow> Inl e
           | Inr left \<Rightarrow>
               (case asIntegerIterator env LHS rhs of
                  Inl e \<Rightarrow> Inl e
                | Inr right \<Rightarrow>
                    Inr (integerBooleanExprIterator (bufIntegerIterator left) (bufIntegerIterator right)
                           (integerBooleanExprIterator_fn fn))))
      | None \<Rightarrow> Inl (Error ErrTransform))"

subsection \<open>buildExprIterator\<close>

fun isVarRef :: "expr \<Rightarrow> bool" where
  "isVarRef (VarRef v) = True"
| "isVarRef e = False"

text \<open>
  The arguments of \<open>top\<close>/\<open>bottom\<close> strictly between the first and the last:
  \<open>expr.Args[i]\<close> for \<open>1 \<le> i < len(expr.Args)-1\<close>.
\<close>

definition interiorArgs :: "expr list \<Rightarrow> expr list" where
  "interiorArgs args = butlast (tl args)"

text \<open>The inner loop: the first index of \<open>opt.Aux\<close> that holds the name, if any.\<close>

fun firstIndex :: "string list \<Rightarrow> string \<Rightarrow> nat \<Rightarrow> nat list" where
  "firstIndex [] v index = []"
| "firstIndex (name # names) v index = (if name = v then [index] else firstIndex names v (Suc index))"

text \<open>The outer loop; \<open>expr.Args[i].(*VarRef)\<close> panics on another node.\<close>

fun tagIndices :: "string list \<Rightarrow> expr list \<Rightarrow> nat list \<Rightarrow> panic + nat list" where
  "tagIndices aux [] tags = Inr tags"
| "tagIndices aux (VarRef v # es) tags = tagIndices aux es (tags @ firstIndex aux v 0)"
| "tagIndices aux (e # es) tags = Inl TypeAssertion"

text \<open>
  Every recursive call in the \<open>Call\<close> case is \<open>buildExprIterator(expr.Args[0], ic, opt)\<close>,
  with the same \<open>ic\<close> and \<open>opt\<close>. The functions for this case take its outcome as the
  argument \<open>r0\<close> and use it in the branches that make the call. \<open>buildArg0VarRef\<close> is
  \<open>buildExprIterator(expr.Args[0].(*VarRef), ic, opt)\<close>: the index and the assertion can
  panic before the call.
\<close>

definition buildArg0VarRef :: "expr list \<Rightarrow> iterator result \<Rightarrow> iterator result" where
  "buildArg0VarRef args r0 =
     (case args of
        [] \<Rightarrow> (Inl (Panic IndexOutOfRange), [])
      | a # _ \<Rightarrow> if isVarRef a then r0 else (Inl (Panic TypeAssertion), []))"

text \<open>\<open>top\<close> and \<open>bottom\<close>; \<open>mk\<close> is \<open>TopIterator\<close> or \<open>BottomIterator\<close>, \<open>err\<close> the error.\<close>

definition buildSelector ::
  "env \<Rightarrow> (iterator \<Rightarrow> IteratorOptions \<Rightarrow> float64 \<Rightarrow> nat list \<Rightarrow> iterator) \<Rightarrow> (nat \<Rightarrow> error)
     \<Rightarrow> expr list \<Rightarrow> IteratorOptions \<Rightarrow> iterator result \<Rightarrow> iterator result" where
  "buildSelector env mk err args opt r0 =
     (if length args < 2 then (Inl (Error (err (length args))), [])
      else
        (case (if length args > 2 then tagIndices (opt_Aux opt) (interiorArgs args) [] else Inr []) of
           Inl p \<Rightarrow> (Inl (Panic p), [])
         | Inr tags \<Rightarrow>
             (case buildArg0VarRef args r0 of
                (Inl e, tr) \<Rightarrow> (Inl e, tr)
              | (Inr input, tr) \<Rightarrow>
                  (case last args of
                     NumberLiteral n \<Rightarrow> (construct env (mk input opt n tags), tr)
                   | _ \<Rightarrow> (Inl (Panic TypeAssertion), tr)))))"

text \<open>A branch \<open>input := build Args[0].(*VarRef); return newXIterator(input, opt)\<close>.\<close>

definition buildOverVarRef ::
  "env \<Rightarrow> (iterator \<Rightarrow> IteratorOptions \<Rightarrow> iterator) \<Rightarrow> expr list \<Rightarrow> IteratorOptions
     \<Rightarrow> iterator result \<Rightarrow> iterator result" where
  "buildOverVarRef env mk args opt r0 =
     (case buildArg0VarRef args r0 of
        (Inl e, tr) \<Rightarrow> (Inl e, tr)
      | (Inr input, tr) \<Rightarrow> (construct env (mk input opt), tr))"

text \<open>The function literal of the default case: the switch on \<open>expr.Name\<close>.\<close>

definition buildCallInner ::
  "env \<Rightarrow> string \<Rightarrow> expr list \<Rightarrow> IteratorCreator \<Rightarrow> IteratorOptions \<Rightarrow> iterator result
     \<Rightarrow> iterator result" where
  "buildCallInner env name args ic opt r0 =
     (if name = ''count'' then
        (case args of
           [] \<Rightarrow> (Inl (Panic IndexOutOfRange), [])
         | Call argName argArgs # _ \<Rightarrow>
             if argName = ''distinct'' then
               (case r0 of
                  (Inl e, tr) \<Rightarrow> (Inl e, tr)
                | (Inr input, tr) \<Rightarrow> (construct env (CountIterator input opt), tr))
             else callCreateIterator ic opt
         | _ # _ \<Rightarrow> callCreateIterator ic opt)
      else if name \<in> {''min'', ''max'', ''sum'', ''first'', ''last'', ''mean''} then
        callCreateIterator ic opt
      else if name = ''median'' then buildOverVarRef env MedianIterator args opt r0
      else if name = ''stddev'' then buildOverVarRef env StddevIterator args opt r0
      else if name = ''spread'' then buildOverVarRef env SpreadIterator args opt r0
      else if name = ''top'' then buildSelector env TopIterator ErrTopArguments args opt r0
      else if name = ''bottom'' then buildSelector env BottomIterator ErrBottomArguments args opt r0
      else if name = ''percentile'' then
        (case buildArg0VarRef args r0 of
           (Inl e, tr) \<Rightarrow> (Inl e, tr)
         | (Inr input, tr) \<Rightarrow>
             (case tl args of
                [] \<Rightarrow> (Inl (Panic IndexOutOfRange), tr)
              | NumberLiteral percentile # _ \<Rightarrow>
                  (construct env (PercentileIterator input opt percentile), tr)
              | _ # _ \<Rightarrow> (Inl (Panic TypeAssertion), tr)))
      else (Inl (Error (ErrUnsupportedCall name)), []))"

text \<open>
  The \<open>Call\<close> case; \<open>opt\<close> already has \<open>opt.Expr = expr\<close>. The derivative case clears
  the interval and the time bounds of its own copy of \<open>opt\<close> after the input is built.
\<close>

definition buildCall ::
  "env \<Rightarrow> string \<Rightarrow> expr list \<Rightarrow> IteratorCreator \<Rightarrow> IteratorOptions \<Rightarrow> iterator result
     \<Rightarrow> iterator result" where
  "buildCall env name args ic opt r0 =
     (if name = ''distinct'' then
        (case buildArg0VarRef args r0 of
           (Inl e, tr) \<Rightarrow> (Inl e, tr)
         | (Inr input, tr) \<Rightarrow>
             (case construct env (DistinctIterator input opt) of
                Inl e \<Rightarrow> (Inl e, tr)
              | Inr input' \<Rightarrow> (Inr (IntervalIterator input' opt), tr)))
      else if name = ''derivative'' \<or> name = ''non_negative_derivative'' then
        (case (case args of [] \<Rightarrow> (Inl (Panic IndexOutOfRange), []) | _ # _ \<Rightarrow> r0) of
           (Inl e, tr) \<Rightarrow> (Inl e, tr)
         | (Inr input, tr) \<Rightarrow>
             (let interval = DerivativeInterval env opt;
                  isNonNegative = (name = ''non_negative_derivative'');
                  opt' = opt\<lparr>opt_Interval := \<lparr>Duration = 0, Offset = 0\<rparr>,
                              opt_StartTime := MinTime_const env, opt_EndTime := MaxTime_const env\<rparr>
              in (construct env (DerivativeIterator input opt' interval isNonNegative), tr)))
      else
        (case buildCallInner env name args ic opt r0 of
           (Inl e, tr) \<Rightarrow> (Inl e, tr)
         | (Inr itr, tr) \<Rightarrow>
             (let itr1 = (if name \<noteq> ''top'' \<and> name \<noteq> ''bottom'' then IntervalIterator itr opt else itr);
                  itr2 = (if \<not> IsZero (opt_Interval opt) \<and> opt_Fill opt \<noteq> NoFill
                          then FillIterator itr1 (Call name args) opt else itr1)
              in (Inr itr2, tr))))"

fun buildExprIterator :: "env \<Rightarrow> expr \<Rightarrow> IteratorCreator \<Rightarrow> IteratorOptions \<Rightarrow> iterator result" where
  "buildExprIterator env (VarRef v) ic opt =
     callCreateIterator ic (opt\<lparr>opt_Expr := Some (VarRef v)\<rparr>)"
| "buildExprIterator env (Call name args) ic opt =
     buildCall env name args ic (opt\<lparr>opt_Expr := Some (Call name args)\<rparr>)
       (case args of
          [] \<Rightarrow> (Inl (Panic IndexOutOfRange), [])
        | a # _ \<Rightarrow> buildExprIterator env a ic (opt\<lparr>opt_Expr := Some (Call name args)\<rparr>))"
| "buildExprIterator env (BinaryExpr op lhs rhs) ic opt =
     (if isLiteral rhs then
        (if isLiteral lhs then (Inl (Error (ErrTwoLiterals lhs rhs)), [])
         else
           (case buildExprIterator env lhs ic (opt\<lparr>opt_Expr := Some (BinaryExpr op lhs rhs)\<rparr>) of
              (Inl e, tr) \<Rightarrow> (Inl e, tr)
            | (Inr l, tr) \<Rightarrow> (buildRHSTransformIterator env l rhs op, tr)))
      else if isLiteral lhs then
        (case buildExprIterator env rhs ic (opt\<lparr>opt_Expr := Some (BinaryExpr op lhs rhs)\<rparr>) of
           (Inl e, tr) \<Rightarrow> (Inl e, tr)
         | (Inr r, tr) \<Rightarrow> (buildLHSTransformIterator env lhs r op, tr))
      else
        (case buildExprIterator env lhs ic (opt\<lparr>opt_Expr := Some (BinaryExpr op lhs rhs)\<rparr>) of
           (Inl e, tr) \<Rightarrow> (Inl e, tr)
         | (Inr l, tr) \<Rightarrow>
             (case buildExprIterator env rhs ic (opt\<lparr>opt_Expr := Some (BinaryExpr op lhs rhs)\<rparr>) of
                (Inl e, tr') \<Rightarrow> (Inl e, tr @ tr')
              | (Inr r, tr') \<Rightarrow> (buildTransformIterator env l r op, tr @ tr'))))"
| "buildExprIterator env (ParenExpr e) ic opt =
     buildExprIterator env e ic (opt\<lparr>opt_Expr := Some (ParenExpr e)\<rparr>)"
| "buildExprIterator env e ic opt = (Inl (Error (ErrInvalidExpressionType e)), [])"

subsection \<open>buildAuxIterators\<close>

text \<open>
  The loop \<open>for i, f := range fields\<close>, from the front of the slice. On an error of
  \<open>buildExprIterator\<close> the function returns at once, with the error wrapped; a panic is
  not an error value and passes through.
\<close>

fun auxFieldLoop :: "env \<Rightarrow> iterator \<Rightarrow> IteratorOptions \<Rightarrow> Field list \<Rightarrow> (iterator list) result" where
  "auxFieldLoop env aitr opt [] = (Inr [], [])"
| "auxFieldLoop env aitr opt (f # fs) =
     (case Reduce env (Expr f) of
        VarRef v \<Rightarrow>
          (case auxFieldLoop env aitr opt fs of
             (Inl e, tr) \<Rightarrow> (Inl e, IteratorCall aitr v # tr)
           | (Inr itrs, tr) \<Rightarrow> (Inr (AuxFieldIterator aitr v # itrs), IteratorCall aitr v # tr))
      | BinaryExpr op lhs rhs \<Rightarrow>
          (case buildExprIterator env (BinaryExpr op lhs rhs) (auxCreator env aitr) opt of
             (Inl (Error err), tr) \<Rightarrow> (Inl (Error (ErrFieldIterator f err)), tr)
           | (Inl (Panic p), tr) \<Rightarrow> (Inl (Panic p), tr)
           | (Inr itr, tr) \<Rightarrow>
               (case auxFieldLoop env aitr opt fs of
                  (Inl e, tr') \<Rightarrow> (Inl e, tr @ tr')
                | (Inr itrs, tr') \<Rightarrow> (Inr (itr # itrs), tr @ tr')))
      | _ \<Rightarrow> (Inl (Panic Unreachable), []))"

definition buildAuxIterators ::
  "env \<Rightarrow> Field list \<Rightarrow> IteratorCreator \<Rightarrow> IteratorOptions \<Rightarrow> (iterator list) result" where
  "buildAuxIterators env flds ic opt =
     (case CreateIterator ic opt of
        Inl msg \<Rightarrow> (Inl (Error (ErrExternal msg)), [CreateIteratorCall opt])
      | Inr input0 \<Rightarrow>
          (let input1 = (if opt_Dedupe opt then DedupeIterator input0 else input0);
               input = (if opt_Limit opt > 0 \<or> opt_Offset opt > 0
                        then LimitIterator input1 opt else input1)
           in case SeriesKeys ic opt of
                Inl msg \<Rightarrow>
                  (Inl (Error (ErrExternal msg)),
                   [CreateIteratorCall opt, SeriesKeysCall opt, CloseCall input])
              | Inr seriesKeys \<Rightarrow>
                  (let aitr = AuxIterator input seriesKeys opt
                   in case auxFieldLoop env aitr opt flds of
                        (Inl e, tr) \<Rightarrow> (Inl e, [CreateIteratorCall opt, SeriesKeysCall opt] @ tr)
                      | (Inr itrs, tr) \<Rightarrow>
                          (Inr itrs,
                           [CreateIteratorCall opt, SeriesKeysCall opt] @ tr @ [BackgroundCall aitr]))))"

subsection \<open>buildFieldIterators\<close>

text \<open>
  The variables of the function literal: the slice \<open>itrs\<close> (nil entries are None),
  \<open>hasAuxFields\<close>, \<open>input\<close>, and the trace so far, each prefixed with \<open>bs_\<close>.
\<close>

record build_state =
  bs_itrs :: "iterator option list"
  bs_hasAuxFields :: bool
  bs_input :: "iterator option"
  bs_trace :: "event list"

text \<open>The first loop, at index \<open>i\<close>; the first component is the error it returns, if any.\<close>

fun fieldLoop1 ::
  "env \<Rightarrow> IteratorCreator \<Rightarrow> IteratorOptions \<Rightarrow> Field list \<Rightarrow> nat \<Rightarrow> build_state
     \<Rightarrow> failure option \<times> build_state" where
  "fieldLoop1 env ic opt [] i st = (None, st)"
| "fieldLoop1 env ic opt (f # fs) i st =
     (if ContainsVarRef env (Expr f) then
        fieldLoop1 env ic opt fs (Suc i) (st\<lparr>bs_hasAuxFields := True\<rparr>)
      else
        (case buildExprIterator env (Reduce env (Expr f)) ic opt of
           (Inl e, tr) \<Rightarrow> (Some e, st\<lparr>bs_trace := bs_trace st @ tr\<rparr>)
         | (Inr itr, tr) \<Rightarrow>
             fieldLoop1 env ic opt fs (Suc i)
               (st\<lparr>bs_itrs := (bs_itrs st)[i := Some itr], bs_input := Some itr, bs_trace := bs_trace st @ tr\<rparr>)))"

text \<open>The second loop: built entries become the aux iterator, the others are built on it.\<close>

fun fieldLoop2 ::
  "env \<Rightarrow> iterator \<Rightarrow> IteratorOptions \<Rightarrow> Field list \<Rightarrow> nat \<Rightarrow> build_state
     \<Rightarrow> failure option \<times> build_state" where
  "fieldLoop2 env aitr opt [] i st = (None, st)"
| "fieldLoop2 env aitr opt (f # fs) i st =
     (if i < length (bs_itrs st) \<and> bs_itrs st ! i \<noteq> None then
        fieldLoop2 env aitr opt fs (Suc i) (st\<lparr>bs_itrs := (bs_itrs st)[i := Some aitr]\<rparr>)
      else
        (case buildExprIterator env (Reduce env (Expr f)) (auxCreator env aitr) opt of
           (Inl e, tr) \<Rightarrow> (Some e, st\<lparr>bs_trace := bs_trace st @ tr\<rparr>)
         | (Inr itr, tr) \<Rightarrow>
             fieldLoop2 env aitr opt fs (Suc i)
               (st\<lparr>bs_itrs := (bs_itrs st)[i := Some itr], bs_trace := bs_trace st @ tr\<rparr>)))"

text \<open>\<open>Iterators(itrs).filterNonNil()\<close>.\<close>

definition filterNonNil :: "iterator option list \<Rightarrow> iterator list" where
  "filterNonNil xs = concat (map (\<lambda>x. case x of None \<Rightarrow> [] | Some itr \<Rightarrow> [itr]) xs)"

text \<open>
  The error exit of \<open>buildFieldIterators\<close>: \<open>Close\<close> on every non-nil entry of the slice,
  then the error.
\<close>

definition closeAndFail :: "failure \<Rightarrow> build_state \<Rightarrow> (iterator option list) result" where
  "closeAndFail e st = (Inl e, bs_trace st @ map CloseCall (filterNonNil (bs_itrs st)))"

text \<open>
  The regular exit: the limit wrap of every entry. What \<open>NewLimitIterator\<close> returns for
  a nil entry is outside the files at hand; the entry stays nil here.
\<close>

definition limitAndReturn :: "IteratorOptions \<Rightarrow> build_state \<Rightarrow> (iterator option list) result" where
  "limitAndReturn opt st =
     (if opt_Limit opt > 0 \<or> opt_Offset opt > 0
      then (Inr (map (map_option (\<lambda>itr. LimitIterator itr opt)) (bs_itrs st)), bs_trace st)
      else (Inr (bs_itrs st), bs_trace st))"

definition buildFieldIterators ::
  "env \<Rightarrow> Field list \<Rightarrow> IteratorCreator \<Rightarrow> IteratorOptions \<Rightarrow> (iterator option list) result" where
  "buildFieldIterators env flds ic opt =
     (case fieldLoop1 env ic opt flds 0
             \<lparr>bs_itrs = replicate (length flds) None, bs_hasAuxFields = False, bs_input = None, bs_trace = []\<rparr> of
        (Some e, st) \<Rightarrow> closeAndFail e st
      | (None, st) \<Rightarrow>
          (case bs_input st of
             None \<Rightarrow> limitAndReturn opt st
           | Some inp \<Rightarrow>
               if \<not> bs_hasAuxFields st then limitAndReturn opt st
               else
                 (case SeriesKeys ic opt of
                    Inl msg \<Rightarrow>
                      closeAndFail (Error (ErrExternal msg)) (st\<lparr>bs_trace := bs_trace st @ [SeriesKeysCall opt]\<rparr>)
                  | Inr seriesKeys \<Rightarrow>
                      (let aitr = AuxIterator inp seriesKeys opt
                       in case fieldLoop2 env aitr opt flds 0
                                 (st\<lparr>bs_trace := bs_trace st @ [SeriesKeysCall opt]\<rparr>) of
                            (Some e, st') \<Rightarrow> closeAndFail e st'
                          | (None, st') \<Rightarrow>
                              limitAndReturn opt (st'\<lparr>bs_trace := bs_trace st' @ [StartCall aitr]\<rparr>)))))"

subsection \<open>Select\<close>

text \<open>
  Modelled from the spec: the walk of \<open>newSelectInfo\<close>, which is outside the files at
  hand. It walks the projection and collects the calls (aggregate or selector function
  references) and the refs (raw field references), in projection order. A call is
  collected with its arguments, which are therefore not raw references. \<open>Select\<close> takes
  \<open>newSelectInfo\<close> as a parameter; the sample storage below uses this walk.
\<close>

fun exprCalls :: "expr \<Rightarrow> (string \<times> expr list) list" where
  "exprCalls (Call name args) = [(name, args)]"
| "exprCalls (BinaryExpr op lhs rhs) = exprCalls lhs @ exprCalls rhs"
| "exprCalls (ParenExpr e) = exprCalls e"
| "exprCalls e = []"

fun exprRefs :: "expr \<Rightarrow> string list" where
  "exprRefs (VarRef v) = [v]"
| "exprRefs (BinaryExpr op lhs rhs) = exprRefs lhs @ exprRefs rhs"
| "exprRefs (ParenExpr e) = exprRefs e"
| "exprRefs e = []"

definition walkSelectInfo :: "SelectStatement \<Rightarrow> selectInfo" where
  "walkSelectInfo stmt =
     \<lparr>calls = concat (map (\<lambda>f. exprCalls (Expr f)) (Fields stmt)),
      refs = concat (map (\<lambda>f. exprRefs (Expr f)) (Fields stmt))\<rparr>"

text \<open>
  The names that the loop over \<open>info.calls\<close> appends to \<open>opt.Aux\<close>:
  \<open>call.Args[i].(*VarRef).Val\<close> for the interior arguments of every \<open>top\<close> and \<open>bottom\<close>.
\<close>

fun varRefVals :: "expr list \<Rightarrow> panic + string list" where
  "varRefVals [] = Inr []"
| "varRefVals (VarRef v # es) = (case varRefVals es of Inl p \<Rightarrow> Inl p | Inr vs \<Rightarrow> Inr (v # vs))"
| "varRefVals (e # es) = Inl TypeAssertion"

fun extraAux :: "(string \<times> expr list) list \<Rightarrow> panic + string list" where
  "extraAux [] = Inr []"
| "extraAux ((name, args) # cs) =
     (if name = ''top'' \<or> name = ''bottom'' then
        (case varRefVals (interiorArgs args) of
           Inl p \<Rightarrow> Inl p
         | Inr vs \<Rightarrow> (case extraAux cs of Inl p \<Rightarrow> Inl p | Inr ws \<Rightarrow> Inr (vs @ ws)))
      else extraAux cs)"

text \<open>The rebuilt field list: every field, followed by its implicit extra fields.\<close>

fun extraFieldsOf :: "Field \<Rightarrow> Field list" where
  "extraFieldsOf f =
     (case Expr f of
        Call name args \<Rightarrow>
          if name = ''top'' \<or> name = ''bottom''
          then map (\<lambda>a. \<lparr>Expr = a\<rparr>) (interiorArgs args) else []
      | _ \<Rightarrow> [])"

definition rebuildFields :: "Field list \<Rightarrow> Field list" where
  "rebuildFields flds = concat (map (\<lambda>f. f # extraFieldsOf f) flds)"

definition Select ::
  "env \<Rightarrow> SelectStatement \<Rightarrow> IteratorCreator \<Rightarrow> SelectOptions \<Rightarrow> (iterator option list) result" where
  "Select env stmt ic sopt =
     (case newIteratorOptionsStmt env stmt sopt of
        Inl msg \<Rightarrow> (Inl (Error (ErrExternal msg)), [])
      | Inr opt0 \<Rightarrow>
          (let info = newSelectInfo env stmt
           in if length (calls info) > 1 \<and> length (refs info) > 0
              then (Inl (Error ErrMultipleAggregates), [])
              else
                (let opt = opt0\<lparr>opt_Aux := sort (refs info)\<rparr>
                 in if length (calls info) = 0 \<and> length (refs info) > 0 then
                      (case buildAuxIterators env (Fields stmt) ic opt of
                         (Inl e, tr) \<Rightarrow> (Inl e, tr)
                       | (Inr its, tr) \<Rightarrow> (Inr (map Some its), tr))
                    else
                      (case extraAux (calls info) of
                         Inl p \<Rightarrow> (Inl (Panic p), [])
                       | Inr extra \<Rightarrow>
                           (let opt' = opt\<lparr>opt_Aux := opt_Aux opt @ extra\<rparr>;
                                flds = (if length extra > 0 then rebuildFields (Fields stmt)
                                          else Fields stmt)
                            in buildFieldIterators env flds ic opt')))))"

subsection \<open>The storage tables\<close>

text \<open>
  The template \<open>table.gen.go.tmpl\<close> declares, for every value type, a table and a group
  table with the same methods. A cursor is the object behind \<open>t.cur\<close>, with the counters
  its \<open>Stats()\<close> returns; a nil \<open>t.cur\<close> or \<open>t.gc\<close> is None. The methods run one at a time
  here: the mutex is not modelled. \<open>Close\<close> returns the table and the \<open>Close\<close> calls it
  made on the cursors.
\<close>

record Statistics =
  ScannedValues :: int
  ScannedBytes :: int

record cursor =
  cursor_id :: nat
  Stats :: Statistics

record Table =
  cur :: "cursor option"

record GroupTable = Table +
  gc :: "nat option"

datatype cursor_event = CursorClose cursor | GroupCursorClose nat

definition Table_Close :: "Table \<Rightarrow> Table \<times> cursor_event list" where
  "Table_Close t =
     (case cur t of
        Some c \<Rightarrow> (t\<lparr>cur := None\<rparr>, [CursorClose c])
      | None \<Rightarrow> (t, []))"

definition Table_Statistics :: "Table \<Rightarrow> Statistics" where
  "Table_Statistics t =
     (case cur t of
        None \<Rightarrow> \<lparr>ScannedValues = 0, ScannedBytes = 0\<rparr>
      | Some c \<Rightarrow> \<lparr>ScannedValues = ScannedValues (Stats c), ScannedBytes = ScannedBytes (Stats c)\<rparr>)"

definition GroupTable_Close :: "GroupTable \<Rightarrow> GroupTable \<times> cursor_event list" where
  "GroupTable_Close t =
     (let (t1, ev1) = (case cur t of
                         Some c \<Rightarrow> (t\<lparr>cur := None\<rparr>, [CursorClose c])
                       | None \<Rightarrow> (t, []));
          (t2, ev2) = (case gc t1 of
                         Some g \<Rightarrow> (t1\<lparr>gc := None\<rparr>, [GroupCursorClose g])
                       | None \<Rightarrow> (t1, []))
      in (t2, ev1 @ ev2))"

definition GroupTable_Statistics :: "GroupTable \<Rightarrow> Statistics" where
  "GroupTable_Statistics t =
     (case cur t of
        None \<Rightarrow> \<lparr>ScannedValues = 0, ScannedBytes = 0\<rparr>
      | Some c \<Rightarrow> \<lparr>ScannedValues = ScannedValues (Stats c), ScannedBytes = ScannedBytes (Stats c)\<rparr>)"

subsection \<open>Observations on the result of a build\<close>

text \<open>
  What a caller can tell from the iterator it gets back: whether it is the interval
  iterator, whether it is the fill iterator, and whether it is the interval iterator
  once a fill iterator around it is taken off.
\<close>

definition isIntervalIterator :: "iterator \<Rightarrow> bool" where
  "isIntervalIterator itr = (case itr of IntervalIterator i opt \<Rightarrow> True | _ \<Rightarrow> False)"

definition isFillIterator :: "iterator \<Rightarrow> bool" where
  "isFillIterator itr = (case itr of FillIterator i e opt \<Rightarrow> True | _ \<Rightarrow> False)"

definition intervalWrapped :: "iterator \<Rightarrow> bool" where
  "intervalWrapped itr =
     (case itr of FillIterator i e opt \<Rightarrow> isIntervalIterator i | _ \<Rightarrow> isIntervalIterator itr)"

definition isBinaryExpr :: "expr \<Rightarrow> bool" where
  "isBinaryExpr e = (case e of BinaryExpr op lhs rhs \<Rightarrow> True | _ \<Rightarrow> False)"

text \<open>
  The two failures that only \<open>Select\<close> and \<open>buildAuxIterators\<close> create: the error for
  fields beside several aggregates, and \<open>panic("unreachable")\<close>.
\<close>

definition plannerOnly :: "failure \<Rightarrow> bool" where
  "plannerOnly f \<longleftrightarrow> (f = Error ErrMultipleAggregates \<or> f = Panic Unreachable)"

subsection \<open>A sample storage\<close>

text \<open>
  A storage for concrete runs of the planner: a measurement with the float field \<open>v\<close>,
  the integer field \<open>i\<close> and the string field \<open>s\<close> (every other name is a float field).
  Its \<open>CreateIterator\<close> and \<open>SeriesKeys\<close> always succeed; a leaf has the type of the
  field that \<open>opt.Expr\<close> names, and the float type otherwise. No constructor function
  fails. \<open>Reduce\<close> leaves an expression as it is: the sample expressions have nothing to
  fold. \<open>newSelectInfo\<close> is the walk above, and \<open>ContainsVarRef\<close> holds when the walk
  finds a raw reference. An aux iterator creates the handle of the field that
  \<open>opt.Expr\<close> names. The runs below evaluate no float operation; \<open>sample_arith\<close> only
  fills the parameter.
\<close>

definition sample_arith :: float_arith where
  "sample_arith =
     \<lparr>fadd = (\<lambda>a b. 0), fsub = (\<lambda>a b. 0), fmul = (\<lambda>a b. 0), fdiv = (\<lambda>a b. 0),
      flt = (\<lambda>a b. False), flte = (\<lambda>a b. False), fgt = (\<lambda>a b. False), fgte = (\<lambda>a b. False),
      float64_of_int64 = (\<lambda>i. 0)\<rparr>"

definition sample_fieldType :: "string \<Rightarrow> DataType" where
  "sample_fieldType name =
     (if name = ''i'' then Integer else if name = ''s'' then String else Float)"

definition sample_iteratorType :: "iterator \<Rightarrow> DataType" where
  "sample_iteratorType itr =
     (case itr of
        StorageIterator typ opt \<Rightarrow> typ
      | AuxFieldIterator aitr name \<Rightarrow> sample_fieldType name
      | integerExprIterator l r fn \<Rightarrow> Integer
      | floatBoolTransformIterator i fn \<Rightarrow> Boolean
      | floatBooleanExprIterator l r fn \<Rightarrow> Boolean
      | integerBooleanExprIterator l r fn \<Rightarrow> Boolean
      | _ \<Rightarrow> Float)"

definition sample_leafType :: "IteratorOptions \<Rightarrow> DataType" where
  "sample_leafType opt =
     (case opt_Expr opt of
        Some (VarRef v) \<Rightarrow> sample_fieldType v
      | _ \<Rightarrow> Float)"

definition sample_ic :: IteratorCreator where
  "sample_ic =
     \<lparr>CreateIterator = (\<lambda>opt. Inr (StorageIterator (sample_leafType opt) opt)),
      SeriesKeys = (\<lambda>opt. Inr [])\<rparr>"

definition sample_opt :: IteratorOptions where
  "sample_opt =
     \<lparr>opt_Expr = None, opt_Aux = [], opt_Interval = \<lparr>Duration = 0, Offset = 0\<rparr>,
      opt_StartTime = 0, opt_EndTime = 1000, opt_Fill = NullFill, opt_Dedupe = False,
      opt_Limit = 0, opt_Offset = 0\<rparr>"

definition sample_env :: env where
  "sample_env =
     \<lparr>arith = sample_arith,
      Reduce = (\<lambda>e. e),
      ContainsVarRef = (\<lambda>e. exprRefs e \<noteq> []),
      newIteratorOptionsStmt = (\<lambda>stmt sopt. Inr sample_opt),
      newSelectInfo = walkSelectInfo,
      DerivativeInterval = (\<lambda>opt. \<lparr>Duration = 1000000000, Offset = 0\<rparr>),
      MinTime_const = 0,
      MaxTime_const = 9223372036854775807,
      iteratorType = sample_iteratorType,
      constructorError = (\<lambda>itr. None),
      auxCreateIterator = (\<lambda>aitr opt.
         case opt_Expr opt of
           Some (VarRef v) \<Rightarrow> Inr (AuxFieldIterator aitr v)
         | _ \<Rightarrow> Inl ''invalid expression type for an aux iterator''),
      auxSeriesKeys = (\<lambda>aitr opt. Inr [])\<rparr>"

section \<open>Lemmas about the builders\<close>

subsection \<open>What a successful build of a call returns\<close>

lemma construct_Inr: "construct env x = Inr y \<Longrightarrow> y = x"
  by (simp add: construct_def split: option.splits)

lemma buildSelector_Inr:
  "buildSelector env mk err args opt r0 = (Inr itr, tr) \<Longrightarrow> \<exists>i n tags. itr = mk i opt n tags"
  by (auto simp: buildSelector_def split: if_splits sum.splits prod.splits expr.splits dest: construct_Inr)

lemma buildCall_top:
  assumes "buildCall env name args ic opt r0 = (Inr r, tr)" and "name = ''top''"
  shows "\<exists>i n tags. r = TopIterator i opt n tags \<or> r = FillIterator (TopIterator i opt n tags) (Call name args) opt"
  using assms
  by (auto simp: buildCall_def buildCallInner_def Let_def split: if_splits sum.splits prod.splits dest!: buildSelector_Inr)

lemma buildCall_bottom:
  assumes "buildCall env name args ic opt r0 = (Inr r, tr)" and "name = ''bottom''"
  shows "\<exists>i n tags. r = BottomIterator i opt n tags \<or> r = FillIterator (BottomIterator i opt n tags) (Call name args) opt"
  using assms
  by (auto simp: buildCall_def buildCallInner_def Let_def split: if_splits sum.splits prod.splits dest!: buildSelector_Inr)

lemma buildCall_derivative:
  assumes "buildCall env name args ic opt r0 = (Inr r, tr)" and "name = ''derivative'' \<or> name = ''non_negative_derivative''"
  shows "\<exists>i opt' iv b. r = DerivativeIterator i opt' iv b"
  using assms
  by (auto simp: buildCall_def Let_def split: if_splits sum.splits prod.splits list.splits dest!: construct_Inr)

lemma buildCall_distinct:
  assumes "buildCall env name args ic opt r0 = (Inr r, tr)" and "name = ''distinct''"
  shows "\<exists>i. r = IntervalIterator (DistinctIterator i opt) opt"
  using assms
  by (auto simp: buildCall_def Let_def split: if_splits sum.splits prod.splits list.splits dest!: construct_Inr)

lemma buildCall_other:
  assumes "buildCall env name args ic opt r0 = (Inr r, tr)"
    and "name \<notin> {''distinct'', ''derivative'', ''non_negative_derivative'', ''top'', ''bottom''}"
  shows "\<exists>itr. buildCallInner env name args ic opt r0 = (Inr itr, tr) \<and>
           r = (if \<not> IsZero (opt_Interval opt) \<and> opt_Fill opt \<noteq> NoFill
                then FillIterator (IntervalIterator itr opt) (Call name args) opt
                else IntervalIterator itr opt)"
  using assms
  by (auto simp: buildCall_def Let_def split: if_splits sum.splits prod.splits)


subsection \<open>Where the two planner failures can come from\<close>

lemma plannerOnly_simps [simp]:
  "\<not> plannerOnly (Panic IndexOutOfRange)"
  "\<not> plannerOnly (Panic TypeAssertion)"
  "\<not> plannerOnly (Panic NilPointerDereference)"
  "\<not> plannerOnly (Error (ErrExternal m))"
  "\<not> plannerOnly (Error (ErrFieldIterator fld e))"
  "\<not> plannerOnly (Error (ErrTopArguments n))"
  "\<not> plannerOnly (Error (ErrBottomArguments n))"
  "\<not> plannerOnly (Error (ErrUnsupportedCall s))"
  "\<not> plannerOnly (Error (ErrTwoLiterals l r))"
  "\<not> plannerOnly (Error (ErrInvalidExpressionType l))"
  "\<not> plannerOnly (Error (ErrTypeMismatch sd s))"
  "\<not> plannerOnly (Error ErrRHSTransform)"
  "\<not> plannerOnly (Error ErrLHSTransform)"
  "\<not> plannerOnly (Error ErrTransform)"
  "plannerOnly (Error ErrMultipleAggregates)"
  "plannerOnly (Panic Unreachable)"
  by (simp_all add: plannerOnly_def)

lemma callCreateIterator_failure:
  "fst (callCreateIterator ic opt) = Inl f \<Longrightarrow> \<not> plannerOnly f"
  by (auto simp: callCreateIterator_def split: sum.splits)

lemma construct_failure: "construct env x = Inl f \<Longrightarrow> \<not> plannerOnly f"
  by (auto simp: construct_def split: option.splits)

lemma asFloatIterator_failure: "asFloatIterator env sd x = Inl f \<Longrightarrow> \<not> plannerOnly f"
  by (auto simp: asFloatIterator_def split: DataType.splits)

lemma asIntegerIterator_failure: "asIntegerIterator env sd x = Inl f \<Longrightarrow> \<not> plannerOnly f"
  by (auto simp: asIntegerIterator_def split: DataType.splits)

lemma buildRHSTransformIterator_failure:
  "buildRHSTransformIterator env l rhs op = Inl f \<Longrightarrow> \<not> plannerOnly f"
  unfolding buildRHSTransformIterator_def
  by (auto split: option.splits binfn.splits sum.splits expr.splits
      dest: asFloatIterator_failure)

lemma buildLHSTransformIterator_failure:
  "buildLHSTransformIterator env lhs r op = Inl f \<Longrightarrow> \<not> plannerOnly f"
  unfolding buildLHSTransformIterator_def
  by (auto split: option.splits binfn.splits sum.splits expr.splits
      dest: asFloatIterator_failure)

lemma buildTransformIterator_failure:
  "buildTransformIterator env l r op = Inl f \<Longrightarrow> \<not> plannerOnly f"
  unfolding buildTransformIterator_def
  by (auto split: option.splits binfn.splits sum.splits
      dest: asFloatIterator_failure asIntegerIterator_failure)

lemma buildArg0VarRef_failure:
  assumes "\<And>g. fst r0 = Inl g \<Longrightarrow> \<not> plannerOnly g"
    and "fst (buildArg0VarRef args r0) = Inl f"
  shows "\<not> plannerOnly f"
  using assms
  by (auto simp: buildArg0VarRef_def split: list.splits if_splits)

lemma buildOverVarRef_failure:
  assumes "\<And>g. fst r0 = Inl g \<Longrightarrow> \<not> plannerOnly g"
    and "fst (buildOverVarRef env mk args opt r0) = Inl f"
  shows "\<not> plannerOnly f"
proof (cases "buildArg0VarRef args r0")
  case (Pair a tr)
  show ?thesis
  proof (cases a)
    case (Inl g)
    with Pair assms(2) have "f = g" by (simp add: buildOverVarRef_def)
    moreover have "\<not> plannerOnly g"
      using buildArg0VarRef_failure [where ?r0.0 = r0 and args = args and f = g] assms(1) Pair Inl
      by simp
    ultimately show ?thesis by simp
  next
    case (Inr i)
    with Pair assms(2) have "construct env (mk i opt) = Inl f" by (simp add: buildOverVarRef_def)
    then show ?thesis by (rule construct_failure)
  qed
qed

lemma tagIndices_panic: "tagIndices aux es tags = Inl p \<Longrightarrow> p = TypeAssertion"
  by (induction aux es tags rule: tagIndices.induct) auto

lemma buildSelector_failure:
  assumes "\<And>g. fst r0 = Inl g \<Longrightarrow> \<not> plannerOnly g"
    and "fst (buildSelector env mk err args opt r0) = Inl f"
    and "\<And>n. \<not> plannerOnly (Error (err n))"
  shows "\<not> plannerOnly f"
proof (cases "length args < 2")
  case True
  with assms(2,3) show ?thesis by (auto simp: buildSelector_def)
next
  case False
  show ?thesis
  proof (cases "if length args > 2 then tagIndices (opt_Aux opt) (interiorArgs args) [] else Inr []")
    case (Inl p)
    with False assms(2) have "f = Panic p" by (simp add: buildSelector_def)
    moreover from Inl have "p = TypeAssertion"
      by (auto split: if_splits dest: tagIndices_panic)
    ultimately show ?thesis by simp
  next
    case (Inr tags)
    show ?thesis
    proof (cases "buildArg0VarRef args r0")
      case (Pair a tr)
      show ?thesis
      proof (cases a)
        case (Inl g)
        with Pair Inr False assms(2) have "f = g" by (simp add: buildSelector_def)
        moreover have "\<not> plannerOnly g"
          using buildArg0VarRef_failure [where ?r0.0 = r0 and args = args and f = g] assms(1) Pair Inl
      by simp
        ultimately show ?thesis by simp
      next
        case (Inr i)
        with Pair \<open>_ = Inr tags\<close> False assms(2) show ?thesis
          by (auto simp: buildSelector_def split: expr.splits dest: construct_failure)
      qed
    qed
  qed
qed


lemma buildCallInner_failure:
  assumes r0: "\<And>g. fst r0 = Inl g \<Longrightarrow> \<not> plannerOnly g"
    and f: "fst (buildCallInner env name args ic opt r0) = Inl f"
  shows "\<not> plannerOnly f"
proof -
  have sel: "\<And>n. \<not> plannerOnly (Error (ErrTopArguments n))"
    "\<And>n. \<not> plannerOnly (Error (ErrBottomArguments n))"
    by simp_all
  define c1 where "c1 \<longleftrightarrow> name = ''count''"
  define c2 where "c2 \<longleftrightarrow> name \<in> {''min'', ''max'', ''sum'', ''first'', ''last'', ''mean''}"
  define c3 where "c3 \<longleftrightarrow> name = ''median''"
  define c4 where "c4 \<longleftrightarrow> name = ''stddev''"
  define c5 where "c5 \<longleftrightarrow> name = ''spread''"
  define c6 where "c6 \<longleftrightarrow> name = ''top''"
  define c7 where "c7 \<longleftrightarrow> name = ''bottom''"
  define c8 where "c8 \<longleftrightarrow> name = ''percentile''"
  note cs = c1_def c2_def c3_def c4_def c5_def c6_def c7_def c8_def
  consider (count) c1 | (pushed) "\<not> c1" c2 | (median) c3 | (stddev) c4 | (spread) c5
    | (top) c6 | (bottom) c7 | (percentile) c8
    | (other) "\<not> c1" "\<not> c2" "\<not> c3" "\<not> c4" "\<not> c5" "\<not> c6" "\<not> c7" "\<not> c8"
    by blast
  then show ?thesis
  proof cases
    case count
    then have count: "name = ''count''" by (simp add: cs)
    show ?thesis
    proof (cases args)
      case Nil
      with count f show ?thesis by (auto simp: buildCallInner_def)
    next
      case (Cons a as)
      show ?thesis
      proof (cases "\<exists>as'. a = Call ''distinct'' as'")
        case True
        then obtain as' where a: "a = Call ''distinct'' as'" by blast
        obtain x tr where p: "r0 = (x, tr)" by (cases r0)
        show ?thesis
        proof (cases x)
          case (Inl g)
          with p a Cons count f have "f = g" by (simp add: buildCallInner_def)
          with r0 [of g] p Inl show ?thesis by simp
        next
          case (Inr i)
          with p a Cons count f have "construct env (CountIterator i opt) = Inl f"
            by (simp add: buildCallInner_def)
          then show ?thesis by (rule construct_failure)
        qed
      next
        case False
        with Cons count f have "fst (callCreateIterator ic opt) = Inl f"
          by (cases a) (simp_all add: buildCallInner_def)
        then show ?thesis by (rule callCreateIterator_failure)
      qed
    qed
  next
    case pushed
    then have "name \<noteq> ''count''" "name \<in> {''min'', ''max'', ''sum'', ''first'', ''last'', ''mean''}"
      by (simp_all add: cs)
    with f have "fst (callCreateIterator ic opt) = Inl f"
      by (simp add: buildCallInner_def)
    then show ?thesis by (rule callCreateIterator_failure)
  next
    case median
    then have "name = ''median''" by (simp add: cs)
    with f show ?thesis
      using buildOverVarRef_failure [where ?r0.0 = r0 and f = f] r0 by (simp add: buildCallInner_def)
  next
    case stddev
    then have "name = ''stddev''" by (simp add: cs)
    with f show ?thesis
      using buildOverVarRef_failure [where ?r0.0 = r0 and f = f] r0 by (simp add: buildCallInner_def)
  next
    case spread
    then have "name = ''spread''" by (simp add: cs)
    with f show ?thesis
      using buildOverVarRef_failure [where ?r0.0 = r0 and f = f] r0 by (simp add: buildCallInner_def)
  next
    case top
    then have "name = ''top''" by (simp add: cs)
    with f show ?thesis
      using buildSelector_failure [where ?r0.0 = r0 and f = f and err = ErrTopArguments] r0 sel
      by (simp add: buildCallInner_def)
  next
    case bottom
    then have "name = ''bottom''" by (simp add: cs)
    with f show ?thesis
      using buildSelector_failure [where ?r0.0 = r0 and f = f and err = ErrBottomArguments] r0 sel
      by (simp add: buildCallInner_def)
  next
    case percentile
    then have percentile: "name = ''percentile''" by (simp add: cs)
    show ?thesis
    proof (cases "buildArg0VarRef args r0")
      case (Pair a tr)
      show ?thesis
      proof (cases a)
        case (Inl g)
        with Pair percentile f have "f = g" by (simp add: buildCallInner_def)
        moreover have "\<not> plannerOnly g"
          using buildArg0VarRef_failure [where ?r0.0 = r0 and args = args and f = g] r0 Pair Inl
          by simp
        ultimately show ?thesis by simp
      next
        case (Inr i)
        with Pair percentile f show ?thesis
          by (cases "tl args"; cases "hd (tl args)")
            (auto simp: buildCallInner_def dest: construct_failure)
      qed
    qed
  next
    case other
    then have "buildCallInner env name args ic opt r0 = (Inl (Error (ErrUnsupportedCall name)), [])"
      by (simp add: cs buildCallInner_def)
    with f show ?thesis by auto
  qed
qed

lemma buildCall_failure:
  assumes r0: "\<And>g. fst r0 = Inl g \<Longrightarrow> \<not> plannerOnly g"
    and f: "fst (buildCall env name args ic opt r0) = Inl f"
  shows "\<not> plannerOnly f"
proof -
  consider (distinct) "name = ''distinct''"
    | (derivative) "name = ''derivative'' \<or> name = ''non_negative_derivative''"
    | (other) "name \<noteq> ''distinct''" "name \<noteq> ''derivative''" "name \<noteq> ''non_negative_derivative''"
    by blast
  then show ?thesis
  proof cases
    case distinct
    show ?thesis
    proof (cases "buildArg0VarRef args r0")
      case (Pair a tr)
      show ?thesis
      proof (cases a)
        case (Inl g)
        with Pair distinct f have "f = g" by (simp add: buildCall_def)
        moreover have "\<not> plannerOnly g"
          using buildArg0VarRef_failure [where ?r0.0 = r0 and args = args and f = g] r0 Pair Inl
          by simp
        ultimately show ?thesis by simp
      next
        case (Inr i)
        with Pair distinct f show ?thesis
          by (auto simp: buildCall_def split: sum.splits dest: construct_failure)
      qed
    qed
  next
    case derivative
    with f r0 show ?thesis
      by (cases r0; cases args)
        (auto simp: buildCall_def Let_def split: sum.splits dest: construct_failure)
  next
    case other
    show ?thesis
    proof (cases "buildCallInner env name args ic opt r0")
      case (Pair a tr)
      show ?thesis
      proof (cases a)
        case (Inl g)
        with Pair other f have "f = g" by (simp add: buildCall_def)
        moreover have "\<not> plannerOnly g"
          using buildCallInner_failure [where ?r0.0 = r0 and f = g and name = name and args = args
              and env = env and ic = ic and opt = opt] r0 Pair Inl
          by simp
        ultimately show ?thesis by simp
      next
        case (Inr i)
        with Pair other f show ?thesis by (simp add: buildCall_def Let_def)
      qed
    qed
  qed
qed

lemma buildExprIterator_failure:
  "fst (buildExprIterator env e ic opt) = Inl f \<Longrightarrow> \<not> plannerOnly f"
proof (induction env e ic opt arbitrary: f rule: buildExprIterator.induct)
  case (1 env v ic opt)
  then show ?case by (auto dest: callCreateIterator_failure)
next
  case (2 env name args ic opt)
  show ?case
  proof (rule buildCall_failure [where f = f])
    show "fst (buildCall env name args ic (opt\<lparr>opt_Expr := Some (Call name args)\<rparr>)
        (case args of [] \<Rightarrow> (Inl (Panic IndexOutOfRange), [])
         | a # _ \<Rightarrow> buildExprIterator env a ic (opt\<lparr>opt_Expr := Some (Call name args)\<rparr>))) = Inl f"
      using "2.prems" by simp
  next
    fix g
    assume "fst (case args of [] \<Rightarrow> (Inl (Panic IndexOutOfRange), [])
         | a # _ \<Rightarrow> buildExprIterator env a ic (opt\<lparr>opt_Expr := Some (Call name args)\<rparr>)) = Inl g"
    then show "\<not> plannerOnly g"
      using "2.IH" by (cases args) auto
  qed
next
  case (3 env op lhs rhs ic opt)
  let ?o = "opt\<lparr>opt_Expr := Some (BinaryExpr op lhs rhs)\<rparr>"
  obtain a tr where L: "buildExprIterator env lhs ic ?o = (a, tr)" by (cases "buildExprIterator env lhs ic ?o")
  obtain b tr' where R: "buildExprIterator env rhs ic ?o = (b, tr')" by (cases "buildExprIterator env rhs ic ?o")
  show ?case
  proof (cases "isLiteral rhs")
    case True
    note rl = this
    show ?thesis
    proof (cases "isLiteral lhs")
      case True
      with rl "3.prems" show ?thesis by auto
    next
      case False
      with rl "3.prems" L "3.IH"(1) [of f] show ?thesis
        by (cases a) (auto dest: buildRHSTransformIterator_failure)
    qed
  next
    case False
    note rl = this
    show ?thesis
    proof (cases "isLiteral lhs")
      case True
      with rl "3.prems" R "3.IH"(2) [of f] show ?thesis
        by (cases b) (auto dest: buildLHSTransformIterator_failure)
    next
      case False
      show ?thesis
      proof (cases a)
        case (Inl g)
        with False rl "3.prems" L "3.IH"(3) [of f] show ?thesis by auto
      next
        case (Inr l)
        with False rl "3.prems" L R "3.IH"(4) [of a tr l f] show ?thesis
          by (cases b) (auto dest: buildTransformIterator_failure)
      qed
    qed
  qed
next
  case (4 env e ic opt)
  then show ?case by simp
qed auto

lemma auxFieldLoop_failure:
  assumes "\<forall>f \<in> set flds. isVarRef (Reduce env (Expr f)) \<or> isBinaryExpr (Reduce env (Expr f))"
    and "fst (auxFieldLoop env aitr opt flds) = Inl f"
  shows "\<not> plannerOnly f"
  using assms
proof (induction flds arbitrary: f)
  case Nil
  then show ?case by simp
next
  case (Cons x xs)
  obtain a tr where rest: "auxFieldLoop env aitr opt xs = (a, tr)"
    by (cases "auxFieldLoop env aitr opt xs")
  have ih: "\<And>g. a = Inl g \<Longrightarrow> \<not> plannerOnly g"
    using Cons.IH Cons.prems(1) rest by simp
  from Cons.prems(1) consider (ref) v where "Reduce env (Expr x) = VarRef v"
    | (bin) op lhs rhs where "Reduce env (Expr x) = BinaryExpr op lhs rhs"
    by (cases "Reduce env (Expr x)") (auto simp: isBinaryExpr_def)
  then show ?case
  proof cases
    case ref
    with Cons.prems(2) rest ih show ?thesis by (cases a) auto
  next
    case bin
    obtain b tr' where cur: "buildExprIterator env (BinaryExpr op lhs rhs) (auxCreator env aitr) opt = (b, tr')"
      by (cases "buildExprIterator env (BinaryExpr op lhs rhs) (auxCreator env aitr) opt")
    show ?thesis
    proof (cases b)
      case (Inl g)
      have ng: "\<not> plannerOnly g"
        using buildExprIterator_failure [of env "BinaryExpr op lhs rhs" "auxCreator env aitr" opt g] cur Inl
        by simp
      show ?thesis
      proof (cases g)
        case (Error err)
        with Inl cur bin Cons.prems(2) show ?thesis by auto
      next
        case (Panic p)
        with Inl cur bin Cons.prems(2) ng show ?thesis by auto
      qed
    next
      case (Inr itr)
      with cur bin Cons.prems(2) rest ih show ?thesis by (cases a) auto
    qed
  qed
qed

lemma auxFieldLoop_error:
  "fst (auxFieldLoop env aitr opt flds) \<noteq> Inl (Error ErrMultipleAggregates)"
proof (induction flds)
  case Nil
  then show ?case by simp
next
  case (Cons x xs)
  obtain a tr where rest: "auxFieldLoop env aitr opt xs = (a, tr)"
    by (cases "auxFieldLoop env aitr opt xs")
  with Cons.IH have ih: "a \<noteq> Inl (Error ErrMultipleAggregates)" by simp
  show ?case
  proof (cases "Reduce env (Expr x)")
    case (VarRef v)
    with rest ih show ?thesis by (cases a) auto
  next
    case (BinaryExpr op lhs rhs)
    obtain b tr' where cur: "buildExprIterator env (BinaryExpr op lhs rhs) (auxCreator env aitr) opt = (b, tr')"
      by (cases "buildExprIterator env (BinaryExpr op lhs rhs) (auxCreator env aitr) opt")
    show ?thesis
    proof (cases b)
      case (Inl g)
      with cur BinaryExpr show ?thesis by (cases g) auto
    next
      case (Inr itr)
      with cur BinaryExpr rest ih show ?thesis by (cases a) auto
    qed
  qed simp_all
qed

lemma buildAuxIterators_failure:
  assumes "\<forall>f \<in> set flds. isVarRef (Reduce env (Expr f)) \<or> isBinaryExpr (Reduce env (Expr f))"
  shows "fst (buildAuxIterators env flds ic opt) \<noteq> Inl (Panic Unreachable)"
proof
  assume u: "fst (buildAuxIterators env flds ic opt) = Inl (Panic Unreachable)"
  show False
  proof (cases "CreateIterator ic opt")
    case (Inl msg)
    with u show ?thesis by (simp add: buildAuxIterators_def)
  next
    case (Inr input0)
    note c = this
    show ?thesis
    proof (cases "SeriesKeys ic opt")
      case (Inl msg)
      with c u show ?thesis by (simp add: buildAuxIterators_def Let_def)
    next
      case (Inr keys)
      define aitr where "aitr = AuxIterator
         (if 0 < opt_Limit opt \<or> 0 < opt_Offset opt
          then LimitIterator (if opt_Dedupe opt then DedupeIterator input0 else input0) opt
          else (if opt_Dedupe opt then DedupeIterator input0 else input0)) keys opt"
      obtain a tr where l: "auxFieldLoop env aitr opt flds = (a, tr)"
        by (cases "auxFieldLoop env aitr opt flds")
      from u c Inr l have "a = Inl (Panic Unreachable)"
        by (cases a) (simp_all add: buildAuxIterators_def Let_def aitr_def)
      with auxFieldLoop_failure [OF assms, of aitr opt "Panic Unreachable"] l
      show ?thesis by simp
    qed
  qed
qed

lemma buildAuxIterators_error:
  "fst (buildAuxIterators env flds ic opt) \<noteq> Inl (Error ErrMultipleAggregates)"
proof
  assume u: "fst (buildAuxIterators env flds ic opt) = Inl (Error ErrMultipleAggregates)"
  show False
  proof (cases "CreateIterator ic opt")
    case (Inl msg)
    with u show ?thesis by (simp add: buildAuxIterators_def)
  next
    case (Inr input0)
    note c = this
    show ?thesis
    proof (cases "SeriesKeys ic opt")
      case (Inl msg)
      with c u show ?thesis by (simp add: buildAuxIterators_def Let_def)
    next
      case (Inr keys)
      define aitr where "aitr = AuxIterator
         (if 0 < opt_Limit opt \<or> 0 < opt_Offset opt
          then LimitIterator (if opt_Dedupe opt then DedupeIterator input0 else input0) opt
          else (if opt_Dedupe opt then DedupeIterator input0 else input0)) keys opt"
      obtain a tr where l: "auxFieldLoop env aitr opt flds = (a, tr)"
        by (cases "auxFieldLoop env aitr opt flds")
      from u c Inr l have "a = Inl (Error ErrMultipleAggregates)"
        by (cases a) (simp_all add: buildAuxIterators_def Let_def aitr_def)
      with auxFieldLoop_error [of env aitr opt flds] l
      show ?thesis by simp
    qed
  qed
qed

lemma fieldLoop1_failure:
  "fieldLoop1 env ic opt flds i st = (Some f, st') \<Longrightarrow> \<not> plannerOnly f"
proof (induction flds arbitrary: i st)
  case Nil
  then show ?case by simp
next
  case (Cons x xs)
  show ?case
  proof (cases "ContainsVarRef env (Expr x)")
    case True
    with Cons show ?thesis by simp
  next
    case False
    obtain a tr where b: "buildExprIterator env (Reduce env (Expr x)) ic opt = (a, tr)"
      by (cases "buildExprIterator env (Reduce env (Expr x)) ic opt")
    show ?thesis
    proof (cases a)
      case (Inl g)
      with b False Cons.prems have "f = g" by simp
      with buildExprIterator_failure [of env "Reduce env (Expr x)" ic opt g] b Inl
      show ?thesis by simp
    next
      case (Inr itr)
      with b False Cons show ?thesis by simp
    qed
  qed
qed

lemma fieldLoop2_failure:
  "fieldLoop2 env aitr opt flds i st = (Some f, st') \<Longrightarrow> \<not> plannerOnly f"
proof (induction flds arbitrary: i st)
  case Nil
  then show ?case by simp
next
  case (Cons x xs)
  show ?case
  proof (cases "i < length (bs_itrs st) \<and> bs_itrs st ! i \<noteq> None")
    case True
    with Cons.prems have "fieldLoop2 env aitr opt xs (Suc i) (st\<lparr>bs_itrs := (bs_itrs st)[i := Some aitr]\<rparr>) = (Some f, st')"
      by simp
    then show ?thesis by (rule Cons.IH)
  next
    case False
    obtain a tr where b: "buildExprIterator env (Reduce env (Expr x)) (auxCreator env aitr) opt = (a, tr)"
      by (cases "buildExprIterator env (Reduce env (Expr x)) (auxCreator env aitr) opt")
    show ?thesis
    proof (cases a)
      case (Inl g)
      with b False Cons.prems have "f = g" by auto
      with buildExprIterator_failure [of env "Reduce env (Expr x)" "auxCreator env aitr" opt g] b Inl
      show ?thesis by simp
    next
      case (Inr itr)
      with b False Cons.prems
      have "fieldLoop2 env aitr opt xs (Suc i)
         (st\<lparr>bs_itrs := (bs_itrs st)[i := Some itr], bs_trace := bs_trace st @ tr\<rparr>) = (Some f, st')"
        by auto
      then show ?thesis by (rule Cons.IH)
    qed
  qed
qed

lemma limitAndReturn_Inr: "fst (limitAndReturn opt st) \<noteq> Inl f"
  by (simp add: limitAndReturn_def)

lemma buildFieldIterators_failure:
  assumes "fst (buildFieldIterators env flds ic opt) = Inl f"
  shows "\<not> plannerOnly f"
proof -
  let ?st0 = "\<lparr>bs_itrs = replicate (length flds) None, bs_hasAuxFields = False,
                bs_input = None, bs_trace = []\<rparr>"
  obtain e1 st1 where l1: "fieldLoop1 env ic opt flds 0 ?st0 = (e1, st1)"
    by (cases "fieldLoop1 env ic opt flds 0 ?st0")
  show ?thesis
  proof (cases e1)
    case (Some g)
    with l1 assms have "f = g" by (simp add: buildFieldIterators_def closeAndFail_def)
    with fieldLoop1_failure l1 Some show ?thesis by blast
  next
    case None
    note n1 = this
    show ?thesis
    proof (cases "bs_input st1")
      case None
      with n1 l1 assms limitAndReturn_Inr show ?thesis by (simp add: buildFieldIterators_def)
    next
      case (Some inp)
      note inp = this
      show ?thesis
      proof (cases "bs_hasAuxFields st1")
        case False
        with n1 inp l1 assms limitAndReturn_Inr show ?thesis by (simp add: buildFieldIterators_def)
      next
        case True
        note aux = this
        show ?thesis
        proof (cases "SeriesKeys ic opt")
          case (Inl msg)
          with n1 inp aux l1 assms show ?thesis
            by (auto simp: buildFieldIterators_def closeAndFail_def)
        next
          case (Inr keys)
          let ?st = "st1\<lparr>bs_trace := bs_trace st1 @ [SeriesKeysCall opt]\<rparr>"
          obtain e2 st2 where l2: "fieldLoop2 env (AuxIterator inp keys opt) opt flds 0 ?st = (e2, st2)"
            by (cases "fieldLoop2 env (AuxIterator inp keys opt) opt flds 0 ?st")
          show ?thesis
          proof (cases e2)
            case None
            with n1 inp aux l1 l2 Inr assms limitAndReturn_Inr show ?thesis
              by (simp add: buildFieldIterators_def Let_def)
          next
            case (Some g)
            with n1 inp aux l1 l2 Inr assms have "f = g"
              by (simp add: buildFieldIterators_def Let_def closeAndFail_def)
            with fieldLoop2_failure l2 Some show ?thesis by blast
          qed
        qed
      qed
    qed
  qed
qed

lemma varRefVals_panic: "varRefVals es = Inl p \<Longrightarrow> p = TypeAssertion"
  by (induction es rule: varRefVals.induct) (auto split: sum.splits)

lemma extraAux_panic: "extraAux cs = Inl p \<Longrightarrow> p = TypeAssertion"
  by (induction cs rule: extraAux.induct) (auto split: sum.splits if_splits dest: varRefVals_panic)

lemma Select_failure:
  assumes ok: "newIteratorOptionsStmt env stmt sopt = Inr opt0"
    and small: "\<not> (1 < length (calls (newSelectInfo env stmt)) \<and> 0 < length (refs (newSelectInfo env stmt)))"
    and f: "fst (Select env stmt ic sopt) = Inl f"
  shows "f \<noteq> Error ErrMultipleAggregates"
    and "(\<forall>x \<in> set (Fields stmt). isVarRef (Reduce env (Expr x)) \<or> isBinaryExpr (Reduce env (Expr x)))
         \<Longrightarrow> f \<noteq> Panic Unreachable"
proof -
  let ?info = "newSelectInfo env stmt"
  let ?opt = "opt0\<lparr>opt_Aux := sort (refs ?info)\<rparr>"
  show "f \<noteq> Error ErrMultipleAggregates"
  proof (cases "length (calls ?info) = 0 \<and> 0 < length (refs ?info)")
    case True
    obtain a tr where b: "buildAuxIterators env (Fields stmt) ic ?opt = (a, tr)"
      by (cases "buildAuxIterators env (Fields stmt) ic ?opt")
    from True ok small f b have "a = Inl f"
      by (cases a) (auto simp: Select_def Let_def split: if_splits)
    with buildAuxIterators_error [of env "Fields stmt" ic ?opt] b show ?thesis by auto
  next
    case False
    show ?thesis
    proof (cases "extraAux (calls ?info)")
      case (Inl p)
      with False ok small f have "f = Panic p"
        by (auto simp: Select_def Let_def split: if_splits)
      then show ?thesis by simp
    next
      case (Inr extra)
      with False ok small f obtain flds opt1 where "fst (buildFieldIterators env flds ic opt1) = Inl f"
        by (auto simp: Select_def Let_def split: if_splits)
      from buildFieldIterators_failure [OF this] show ?thesis by auto
    qed
  qed
  assume all: "\<forall>x \<in> set (Fields stmt). isVarRef (Reduce env (Expr x)) \<or> isBinaryExpr (Reduce env (Expr x))"
  show "f \<noteq> Panic Unreachable"
  proof (cases "length (calls ?info) = 0 \<and> 0 < length (refs ?info)")
    case True
    obtain a tr where b: "buildAuxIterators env (Fields stmt) ic ?opt = (a, tr)"
      by (cases "buildAuxIterators env (Fields stmt) ic ?opt")
    from True ok small f b have "a = Inl f"
      by (cases a) (auto simp: Select_def Let_def split: if_splits)
    with buildAuxIterators_failure [OF all, of ic ?opt] b show ?thesis by auto
  next
    case False
    show ?thesis
    proof (cases "extraAux (calls ?info)")
      case (Inl p)
      with False ok small f have "f = Panic p"
        by (auto simp: Select_def Let_def split: if_splits)
      with extraAux_panic [OF Inl] show ?thesis by simp
    next
      case (Inr extra)
      with False ok small f obtain flds opt1 where "fst (buildFieldIterators env flds ic opt1) = Inl f"
        by (auto simp: Select_def Let_def split: if_splits)
      from buildFieldIterators_failure [OF this] show ?thesis by auto
    qed
  qed
qed

subsection \<open>The point functions with a present left point\<close>

text \<open>
  For every combining iterator that \<open>buildTransformIterator\<close> returns: with the right
  point absent the output has the metadata of the left point, \<open>Value\<close> zero and \<open>Nil\<close> set;
  with both points present and either of them \<open>Nil\<close>, the output is \<open>Nil\<close>.
\<close>

lemma exprIterator_fn_left_present:
  "exprIterator_fn fn (Some a) None = Inr (a\<lparr>Value := 0, Nil_flag := True\<rparr>)"
  "Nil_flag a \<or> Nil_flag b \<Longrightarrow>
     \<exists>p. exprIterator_fn fn (Some a) (Some b) = Inr p \<and> Nil_flag p"
  by (auto simp: exprIterator_fn_def)

lemma convExprIterator_fn_left_present:
  "convExprIterator_fn zero fn (Some a) None =
     Inr \<lparr>Name = Name a, Tags = Tags a, Time = Time a, Value = zero, Nil_flag = True, Aux = Aux a\<rparr>"
  "Nil_flag a \<or> Nil_flag b \<Longrightarrow>
     \<exists>p. convExprIterator_fn zero fn (Some a) (Some b) = Inr p \<and> Nil_flag p"
  by (auto simp: convExprIterator_fn_def)

lemma buildTransformIterator_fn:
  assumes "buildTransformIterator env lhs rhs op = Inr itr"
  shows "(\<exists>l r fn. itr = floatExprIterator l r (exprIterator_fn fn))
       \<or> (\<exists>l r fn. itr = integerExprIterator l r (exprIterator_fn fn))
       \<or> (\<exists>l r fn. itr = integerFloatExprIterator l r (convExprIterator_fn 0 fn))
       \<or> (\<exists>l r fn. itr = floatBooleanExprIterator l r (convExprIterator_fn False fn))
       \<or> (\<exists>l r fn. itr = integerBooleanExprIterator l r (convExprIterator_fn False fn))"
  using assms unfolding buildTransformIterator_def
  by (auto split: option.splits binfn.splits sum.splits
      simp: floatExprIterator_fn_def integerExprIterator_fn_def
        integerFloatExprIterator_fn_def floatBooleanExprIterator_fn_def
        integerBooleanExprIterator_fn_def)

subsection \<open>The sample storage, unfolded\<close>

lemma sample_env_simps:
  "arith sample_env = sample_arith"
  "Reduce sample_env e = e"
  "constructorError sample_env itr = None"
  "iteratorType sample_env = sample_iteratorType"
  "MinTime_const sample_env = 0"
  "MaxTime_const sample_env = 9223372036854775807"
  "DerivativeInterval sample_env opt = \<lparr>Duration = 1000000000, Offset = 0\<rparr>"
  "newIteratorOptionsStmt sample_env stmt sopt = Inr sample_opt"
  "ContainsVarRef sample_env e = (exprRefs e \<noteq> [])"
  "newSelectInfo sample_env = walkSelectInfo"
  by (simp_all add: sample_env_def)

lemma sample_ic_simps:
  "CreateIterator sample_ic opt = Inr (StorageIterator (sample_leafType opt) opt)"
  "SeriesKeys sample_ic opt = Inr []"
  by (simp_all add: sample_ic_def)

lemma sample_opt_simps:
  "opt_Interval (sample_opt\<lparr>opt_Expr := e\<rparr>) = \<lparr>Duration = 0, Offset = 0\<rparr>"
  "opt_Fill (sample_opt\<lparr>opt_Expr := e\<rparr>) = NullFill"
  "opt_Expr (sample_opt\<lparr>opt_Expr := e\<rparr>) = e"
  "opt_Aux (sample_opt\<lparr>opt_Expr := e\<rparr>) = []"
  by (simp_all add: sample_opt_def)

lemmas sample_run_simps =
  sample_env_simps sample_ic_simps buildCall_def buildCallInner_def buildArg0VarRef_def
  buildSelector_def buildOverVarRef_def callCreateIterator_def construct_def IsZero_def
  sample_leafType_def sample_fieldType_def Let_def interiorArgs_def

section \<open>Properties\<close>

text \<open>
  C1. When the left operand point is absent and the right one is present, the point
  functions of \<open>floatExprIterator\<close> and \<open>integerExprIterator\<close> return the right point
  with \<open>Value\<close> zeroed and \<open>Nil\<close> set, as the claim says. The point functions of
  \<open>integerFloatExprIterator\<close>, \<open>floatBooleanExprIterator\<close> and
  \<open>integerBooleanExprIterator\<close> read \<open>a.Name\<close> before they test \<open>a\<close> against nil: they
  panic with a nil pointer dereference and return no point.
\<close>

theorem C1_left_operand_absent:
  "(buildTransformIterator env lhs rhs op = Inr (floatExprIterator l r ff) \<longrightarrow>
      ff None (Some b) = Inr (b\<lparr>Value := 0, Nil_flag := True\<rparr>))
   \<and> (buildTransformIterator env lhs rhs op = Inr (integerExprIterator l r fi) \<longrightarrow>
      fi None (Some b) = Inr (b\<lparr>Value := 0, Nil_flag := True\<rparr>))
   \<and> (buildTransformIterator env lhs rhs op = Inr (integerFloatExprIterator l r g) \<longrightarrow>
      g None (Some b) = Inl NilPointerDereference)
   \<and> (buildTransformIterator env lhs rhs op = Inr (floatBooleanExprIterator l r h) \<longrightarrow>
      h None (Some b) = Inl NilPointerDereference)
   \<and> (buildTransformIterator env lhs rhs op = Inr (integerBooleanExprIterator l r h) \<longrightarrow>
      h None (Some b) = Inl NilPointerDereference)"
  unfolding buildTransformIterator_def
  by (auto split: option.splits binfn.splits sum.splits
      simp: floatExprIterator_fn_def integerExprIterator_fn_def exprIterator_fn_def
        integerFloatExprIterator_fn_def floatBooleanExprIterator_fn_def
        integerBooleanExprIterator_fn_def convExprIterator_fn_def)

text \<open>
  The integer division of two integer iterators of the sample storage: the builder
  returns an \<open>integerFloatExprIterator\<close> whose point function panics when the left
  point is absent.
\<close>

theorem C1_left_operand_absent_witness:
  "(case buildTransformIterator sample_env (StorageIterator Integer sample_opt)
           (StorageIterator Integer sample_opt) DIV of
      Inr (integerFloatExprIterator l r g) \<Rightarrow>
        g None (Some \<lparr>Name = ''m'', Tags = [], Time = 1, Value = 3, Nil_flag = False, Aux = []\<rparr>)
          = Inl NilPointerDereference
    | _ \<Rightarrow> False)"
proof -
  let ?I = "StorageIterator Integer sample_opt"
  let ?g = "integerFloatExprIterator_fn (\<lambda>lhs rhs. if rhs = 0 then 0
              else fdiv sample_arith (float64_of_int64 sample_arith lhs) (float64_of_int64 sample_arith rhs))"
  have e: "buildTransformIterator sample_env ?I ?I DIV =
      Inr (integerFloatExprIterator (bufIntegerIterator ?I) (bufIntegerIterator ?I) ?g)"
    by (simp add: buildTransformIterator_def iteratorDataType_def sample_env_simps
        sample_iteratorType_def binaryExprFunc_def asIntegerIterator_def)
  from C1_left_operand_absent [of sample_env ?I ?I DIV] e
  have "?g None (Some \<lparr>Name = ''m'', Tags = [], Time = 1, Value = 3, Nil_flag = False, Aux = []\<rparr>)
          = Inl NilPointerDereference"
    by blast
  with e show ?thesis by simp
qed

text \<open>
  C2, as stated, fails: a \<open>derivative\<close> call is built without an interval wrap. On the
  sample storage \<open>derivative(v)\<close> is the derivative iterator over the leaf, with the
  interval and the time bounds of its options cleared.
\<close>

theorem C2_derivative_counterexample:
  "buildExprIterator sample_env (Call ''derivative'' [VarRef ''v'']) sample_ic sample_opt =
     (Inr (DerivativeIterator
             (StorageIterator Float (sample_opt\<lparr>opt_Expr := Some (VarRef ''v'')\<rparr>))
             (sample_opt\<lparr>opt_Expr := Some (Call ''derivative'' [VarRef ''v'']),
                         opt_Interval := \<lparr>Duration = 0, Offset = 0\<rparr>,
                         opt_StartTime := 0, opt_EndTime := 9223372036854775807\<rparr>)
             \<lparr>Duration = 1000000000, Offset = 0\<rparr> False),
      [CreateIteratorCall (sample_opt\<lparr>opt_Expr := Some (VarRef ''v'')\<rparr>)])
   \<and> \<not> intervalWrapped (DerivativeIterator
             (StorageIterator Float (sample_opt\<lparr>opt_Expr := Some (VarRef ''v'')\<rparr>))
             (sample_opt\<lparr>opt_Expr := Some (Call ''derivative'' [VarRef ''v'']),
                         opt_Interval := \<lparr>Duration = 0, Offset = 0\<rparr>,
                         opt_StartTime := 0, opt_EndTime := 9223372036854775807\<rparr>)
             \<lparr>Duration = 1000000000, Offset = 0\<rparr> False)"
  by (simp add: sample_run_simps intervalWrapped_def isIntervalIterator_def)

text \<open>
  C2, amended. For every \<open>Call\<close> expression that \<open>buildExprIterator\<close> builds, the result
  is the interval iterator (possibly inside the fill iterator) exactly when the name of
  the call is none of \<open>top\<close>, \<open>bottom\<close>, \<open>derivative\<close>, \<open>non_negative_derivative\<close>. So
  \<open>top\<close> and \<open>bottom\<close> never receive an interval wrap, and neither do the derivatives.
\<close>

theorem C2_interval_wrap:
  assumes "buildExprIterator env (Call name args) ic opt = (Inr r, tr)"
  shows "intervalWrapped r \<longleftrightarrow>
           name \<notin> {''top'', ''bottom'', ''derivative'', ''non_negative_derivative''}"
proof -
  let ?opt = "opt\<lparr>opt_Expr := Some (Call name args)\<rparr>"
  let ?r0 = "case args of [] \<Rightarrow> (Inl (Panic IndexOutOfRange), [])
             | a # _ \<Rightarrow> buildExprIterator env a ic ?opt"
  from assms have b: "buildCall env name args ic ?opt ?r0 = (Inr r, tr)" by simp
  define c1 where "c1 \<longleftrightarrow> name = ''top''"
  define c2 where "c2 \<longleftrightarrow> name = ''bottom''"
  define c3 where "c3 \<longleftrightarrow> name = ''derivative'' \<or> name = ''non_negative_derivative''"
  define c4 where "c4 \<longleftrightarrow> name = ''distinct''"
  note cs = c1_def c2_def c3_def c4_def
  consider (top) c1 | (bottom) c2 | (derivative) c3 | (distinct) c4
    | (other) "\<not> c1" "\<not> c2" "\<not> c3" "\<not> c4"
    by blast
  then show ?thesis
  proof cases
    case top
    then have n: "name = ''top''" by (simp add: cs)
    from buildCall_top [OF b n] n show ?thesis
      by (auto simp: intervalWrapped_def isIntervalIterator_def)
  next
    case bottom
    then have n: "name = ''bottom''" by (simp add: cs)
    from buildCall_bottom [OF b n] n show ?thesis
      by (auto simp: intervalWrapped_def isIntervalIterator_def)
  next
    case derivative
    then have n: "name = ''derivative'' \<or> name = ''non_negative_derivative''" by (simp add: cs)
    from buildCall_derivative [OF b n] n show ?thesis
      by (auto simp: intervalWrapped_def isIntervalIterator_def)
  next
    case distinct
    then have n: "name = ''distinct''" by (simp add: cs)
    from buildCall_distinct [OF b n] n show ?thesis
      by (auto simp: intervalWrapped_def isIntervalIterator_def)
  next
    case other
    then have n: "name \<notin> {''distinct'', ''derivative'', ''non_negative_derivative'', ''top'', ''bottom''}"
      by (simp add: cs)
    from buildCall_other [OF b n] n show ?thesis
      by (auto simp: intervalWrapped_def isIntervalIterator_def)
  qed
qed

text \<open>
  On the sample storage \<open>mean(v)\<close> is the interval iterator over the leaf.
\<close>

theorem C2_interval_wrap_witness:
  "buildExprIterator sample_env (Call ''mean'' [VarRef ''v'']) sample_ic sample_opt =
     (Inr (IntervalIterator
             (StorageIterator Float (sample_opt\<lparr>opt_Expr := Some (Call ''mean'' [VarRef ''v''])\<rparr>))
             (sample_opt\<lparr>opt_Expr := Some (Call ''mean'' [VarRef ''v''])\<rparr>)),
      [CreateIteratorCall (sample_opt\<lparr>opt_Expr := Some (Call ''mean'' [VarRef ''v''])\<rparr>)])
   \<and> intervalWrapped (IntervalIterator
             (StorageIterator Float (sample_opt\<lparr>opt_Expr := Some (Call ''mean'' [VarRef ''v''])\<rparr>))
             (sample_opt\<lparr>opt_Expr := Some (Call ''mean'' [VarRef ''v''])\<rparr>))"
proof -
  have e: "buildExprIterator sample_env (Call ''mean'' [VarRef ''v'']) sample_ic sample_opt =
     (Inr (IntervalIterator
             (StorageIterator Float (sample_opt\<lparr>opt_Expr := Some (Call ''mean'' [VarRef ''v''])\<rparr>))
             (sample_opt\<lparr>opt_Expr := Some (Call ''mean'' [VarRef ''v''])\<rparr>)),
      [CreateIteratorCall (sample_opt\<lparr>opt_Expr := Some (Call ''mean'' [VarRef ''v''])\<rparr>)])"
    by (simp add: sample_run_simps sample_opt_simps)
  from C2_interval_wrap [OF e] e show ?thesis by simp
qed

text \<open>
  C3. A run of the aux-iterator pipeline in which the second field fails: \<open>SELECT v,
  s + 1\<close> with a string field \<open>s\<close>. The primary iterator and the handle for \<open>v\<close> have
  been created when the build of \<open>s + 1\<close> fails; the function returns the wrapped error,
  and its trace holds no \<open>Close\<close> call. The field-iterator pipeline does close: in
  \<open>SELECT mean(v), nosuch(v)\<close> the iterator built for \<open>mean(v)\<close> is closed before the
  error is returned.
\<close>

theorem C3_aux_pipeline_closes_nothing:
  "buildAuxIterators sample_env
       [\<lparr>Expr = VarRef ''v''\<rparr>,
        \<lparr>Expr = BinaryExpr ADD (VarRef ''s'') (NumberLiteral 0x3FF0000000000000)\<rparr>]
       sample_ic (sample_opt\<lparr>opt_Aux := [''s'', ''v'']\<rparr>) =
     (Inl (Error (ErrFieldIterator
                    \<lparr>Expr = BinaryExpr ADD (VarRef ''s'') (NumberLiteral 0x3FF0000000000000)\<rparr>
                    ErrRHSTransform)),
      [CreateIteratorCall (sample_opt\<lparr>opt_Aux := [''s'', ''v'']\<rparr>),
       SeriesKeysCall (sample_opt\<lparr>opt_Aux := [''s'', ''v'']\<rparr>),
       IteratorCall
         (AuxIterator (StorageIterator Float (sample_opt\<lparr>opt_Aux := [''s'', ''v'']\<rparr>)) []
            (sample_opt\<lparr>opt_Aux := [''s'', ''v'']\<rparr>))
         ''v'',
       CreateIteratorCall (sample_opt\<lparr>opt_Expr := Some (VarRef ''s''), opt_Aux := [''s'', ''v'']\<rparr>)])
   \<and> buildFieldIterators sample_env
       [\<lparr>Expr = Call ''mean'' [VarRef ''v'']\<rparr>, \<lparr>Expr = Call ''nosuch'' [VarRef ''v'']\<rparr>]
       sample_ic sample_opt =
     (Inl (Error (ErrUnsupportedCall ''nosuch'')),
      [CreateIteratorCall (sample_opt\<lparr>opt_Expr := Some (Call ''mean'' [VarRef ''v''])\<rparr>),
       CloseCall
         (IntervalIterator
            (StorageIterator Float (sample_opt\<lparr>opt_Expr := Some (Call ''mean'' [VarRef ''v''])\<rparr>))
            (sample_opt\<lparr>opt_Expr := Some (Call ''mean'' [VarRef ''v''])\<rparr>))])"
  by (simp add: buildAuxIterators_def buildFieldIterators_def sample_run_simps sample_opt_def
      auxCreator_def sample_env_def buildRHSTransformIterator_def iteratorDataType_def
      sample_iteratorType_def binaryExprFunc_def closeAndFail_def filterNonNil_def)

text \<open>
  C4. For two Integer operands the operators \<open>+\<close>, \<open>-\<close> and \<open>*\<close> are functions from int64
  pairs to int64, and \<open>/\<close> is a function from int64 pairs to float64. For every pair of
  operand types, the division the table selects returns the float64 zero when the
  divisor is zero (for a float divisor: any value that compares equal to zero), and that
  zero is not a NaN; no division function returns an error, each is total.
\<close>

theorem C4_integer_ops_and_division_by_zero:
  "binaryExprFunc fa Integer Integer ADD = Some (IntegerInteger (\<lambda>lhs rhs. lhs + rhs))
   \<and> binaryExprFunc fa Integer Integer SUB = Some (IntegerInteger (\<lambda>lhs rhs. lhs - rhs))
   \<and> binaryExprFunc fa Integer Integer MUL = Some (IntegerInteger (\<lambda>lhs rhs. lhs * rhs))
   \<and> (\<exists>f. binaryExprFunc fa Integer Integer DIV = Some (IntegerFloat f))
   \<and> (case binaryExprFunc fa typ1 typ2 DIV of
         None \<Rightarrow> typ1 \<noteq> Float \<and> typ1 \<noteq> Integer
       | Some (FloatFloat g) \<Rightarrow>
           (\<forall>lhs rhs. float64_eq rhs 0 \<longrightarrow> g lhs rhs = 0 \<and> \<not> float64_isNaN (g lhs rhs))
       | Some (IntegerFloat f) \<Rightarrow>
           (\<forall>lhs. f lhs 0 = 0 \<and> \<not> float64_isNaN (f lhs 0))
       | Some _ \<Rightarrow> False)"
  by (cases typ1; cases typ2) (simp_all add: binaryExprFunc_def float64_isNaN_def)

text \<open>
  An instance, for every float arithmetic: the negative zero compares equal to zero, so
  \<open>1.0 / -0.0\<close> is \<open>0\<close>, and the integer division \<open>7 / 0\<close> is the float \<open>0\<close>.
\<close>

theorem C4_division_by_zero_witness:
  "\<forall>fa. float64_eq 0x8000000000000000 0
     \<and> (case binaryExprFunc fa Float Float DIV of
           Some (FloatFloat g) \<Rightarrow> g 0x3FF0000000000000 0x8000000000000000 = 0
         | _ \<Rightarrow> False)
     \<and> (case binaryExprFunc fa Integer Integer DIV of
           Some (IntegerFloat f) \<Rightarrow> f 7 0 = 0
         | _ \<Rightarrow> False)"
proof
  fix fa
  have z: "float64_eq 0x8000000000000000 0"
    by (simp add: float64_eq_def float64_isNaN_def float64_isZero_def)
  from C4_integer_ops_and_division_by_zero [of fa Float Float] z
  have a: "case binaryExprFunc fa Float Float DIV of
           Some (FloatFloat g) \<Rightarrow> g 0x3FF0000000000000 0x8000000000000000 = 0
         | _ \<Rightarrow> False"
    by (auto simp: binaryExprFunc_def)
  from C4_integer_ops_and_division_by_zero [of fa Integer Integer]
  have b: "case binaryExprFunc fa Integer Integer DIV of
           Some (IntegerFloat f) \<Rightarrow> f 7 0 = 0
         | _ \<Rightarrow> False"
    by (auto simp: binaryExprFunc_def)
  from z a b show "float64_eq 0x8000000000000000 0
     \<and> (case binaryExprFunc fa Float Float DIV of
           Some (FloatFloat g) \<Rightarrow> g 0x3FF0000000000000 0x8000000000000000 = 0
         | _ \<Rightarrow> False)
     \<and> (case binaryExprFunc fa Integer Integer DIV of
           Some (IntegerFloat f) \<Rightarrow> f 7 0 = 0
         | _ \<Rightarrow> False)" by simp
qed

text \<open>
  C5, as stated, fails: \<open>buildExprIterator\<close> makes no check of the value of \<open>N\<close>. On the
  sample storage, where \<open>newTopIterator\<close> returns no error, \<open>top(v, 0)\<close> is built.
\<close>

theorem C5_top_zero_counterexample:
  "buildExprIterator sample_env (Call ''top'' [VarRef ''v'', NumberLiteral 0]) sample_ic sample_opt =
     (Inr (TopIterator
             (StorageIterator Float (sample_opt\<lparr>opt_Expr := Some (VarRef ''v'')\<rparr>))
             (sample_opt\<lparr>opt_Expr := Some (Call ''top'' [VarRef ''v'', NumberLiteral 0])\<rparr>)
             0 []),
      [CreateIteratorCall (sample_opt\<lparr>opt_Expr := Some (VarRef ''v'')\<rparr>)])"
  by (simp add: sample_run_simps sample_opt_simps)

text \<open>
  C5, amended. A \<open>top\<close> or \<open>bottom\<close> call with fewer than 2 arguments fails with the
  error \<open>top() requires 2 or more arguments, got n\<close> (\<open>bottom()\<close> likewise), and no call
  is made. For \<open>top(x, N)\<close> and \<open>bottom(x, N)\<close>, with \<open>x\<close> a \<open>VarRef\<close> and \<open>N\<close> a
  \<open>NumberLiteral\<close>, the value of \<open>N\<close> is handed to \<open>newTopIterator\<close>
  (\<open>newBottomIterator\<close>) unexamined: the build fails exactly when \<open>ic.CreateIterator\<close> or
  that constructor returns an error, for \<open>N = 0\<close> as for every other \<open>N\<close>.
\<close>

theorem C5_selector_arguments:
  "(length args < 2 \<longrightarrow>
      buildExprIterator env (Call ''top'' args) ic opt
        = (Inl (Error (ErrTopArguments (length args))), [])
      \<and> buildExprIterator env (Call ''bottom'' args) ic opt
        = (Inl (Error (ErrBottomArguments (length args))), []))
   \<and> buildExprIterator env (Call ''top'' [VarRef v, NumberLiteral n]) ic opt =
       (case CreateIterator ic (opt\<lparr>opt_Expr := Some (VarRef v)\<rparr>) of
          Inl msg \<Rightarrow>
            (Inl (Error (ErrExternal msg)), [CreateIteratorCall (opt\<lparr>opt_Expr := Some (VarRef v)\<rparr>)])
        | Inr inp \<Rightarrow>
            (case constructorError env
                    (TopIterator inp (opt\<lparr>opt_Expr := Some (Call ''top'' [VarRef v, NumberLiteral n])\<rparr>) n []) of
               Some msg \<Rightarrow>
                 (Inl (Error (ErrExternal msg)),
                  [CreateIteratorCall (opt\<lparr>opt_Expr := Some (VarRef v)\<rparr>)])
             | None \<Rightarrow>
                 (Inr (if \<not> IsZero (opt_Interval opt) \<and> opt_Fill opt \<noteq> NoFill
                       then FillIterator
                              (TopIterator inp (opt\<lparr>opt_Expr := Some (Call ''top'' [VarRef v, NumberLiteral n])\<rparr>) n [])
                              (Call ''top'' [VarRef v, NumberLiteral n])
                              (opt\<lparr>opt_Expr := Some (Call ''top'' [VarRef v, NumberLiteral n])\<rparr>)
                       else TopIterator inp (opt\<lparr>opt_Expr := Some (Call ''top'' [VarRef v, NumberLiteral n])\<rparr>) n []),
                  [CreateIteratorCall (opt\<lparr>opt_Expr := Some (VarRef v)\<rparr>)])))
   \<and> buildExprIterator env (Call ''bottom'' [VarRef v, NumberLiteral n]) ic opt =
       (case CreateIterator ic (opt\<lparr>opt_Expr := Some (VarRef v)\<rparr>) of
          Inl msg \<Rightarrow>
            (Inl (Error (ErrExternal msg)), [CreateIteratorCall (opt\<lparr>opt_Expr := Some (VarRef v)\<rparr>)])
        | Inr inp \<Rightarrow>
            (case constructorError env
                    (BottomIterator inp (opt\<lparr>opt_Expr := Some (Call ''bottom'' [VarRef v, NumberLiteral n])\<rparr>) n []) of
               Some msg \<Rightarrow>
                 (Inl (Error (ErrExternal msg)),
                  [CreateIteratorCall (opt\<lparr>opt_Expr := Some (VarRef v)\<rparr>)])
             | None \<Rightarrow>
                 (Inr (if \<not> IsZero (opt_Interval opt) \<and> opt_Fill opt \<noteq> NoFill
                       then FillIterator
                              (BottomIterator inp (opt\<lparr>opt_Expr := Some (Call ''bottom'' [VarRef v, NumberLiteral n])\<rparr>) n [])
                              (Call ''bottom'' [VarRef v, NumberLiteral n])
                              (opt\<lparr>opt_Expr := Some (Call ''bottom'' [VarRef v, NumberLiteral n])\<rparr>)
                       else BottomIterator inp (opt\<lparr>opt_Expr := Some (Call ''bottom'' [VarRef v, NumberLiteral n])\<rparr>) n []),
                  [CreateIteratorCall (opt\<lparr>opt_Expr := Some (VarRef v)\<rparr>)])))"
  by (simp add: buildCall_def buildCallInner_def buildSelector_def buildArg0VarRef_def
      callCreateIterator_def construct_def Let_def split: sum.splits option.splits)

text \<open>
  On the sample storage \<open>top(v)\<close> and \<open>bottom(v)\<close> fail with the argument-count error.
\<close>

theorem C5_selector_arguments_witness:
  "length [VarRef ''v''] < 2
   \<and> buildExprIterator sample_env (Call ''top'' [VarRef ''v'']) sample_ic sample_opt
        = (Inl (Error (ErrTopArguments 1)), [])
   \<and> buildExprIterator sample_env (Call ''bottom'' [VarRef ''v'']) sample_ic sample_opt
        = (Inl (Error (ErrBottomArguments 1)), [])"
  using C5_selector_arguments [of "[VarRef ''v'']" sample_env sample_ic sample_opt]
  by simp

text \<open>
  C6, as stated, fails: the options are built first. For \<open>SELECT mean(v), max(v), s\<close>
  (two calls and one raw field) and an options builder that returns an error, \<open>Select\<close>
  returns that error and not the one for fields beside several aggregates.
\<close>

theorem C6_options_error_counterexample:
  "1 < length (calls (walkSelectInfo
         \<lparr>Fields = [\<lparr>Expr = Call ''mean'' [VarRef ''v'']\<rparr>, \<lparr>Expr = Call ''max'' [VarRef ''v'']\<rparr>,
                    \<lparr>Expr = VarRef ''s''\<rparr>]\<rparr>))
   \<and> 0 < length (refs (walkSelectInfo
         \<lparr>Fields = [\<lparr>Expr = Call ''mean'' [VarRef ''v'']\<rparr>, \<lparr>Expr = Call ''max'' [VarRef ''v'']\<rparr>,
                    \<lparr>Expr = VarRef ''s''\<rparr>]\<rparr>))
   \<and> Select (sample_env\<lparr>newIteratorOptionsStmt := (\<lambda>stmt sopt. Inl ''invalid time condition'')\<rparr>)
         \<lparr>Fields = [\<lparr>Expr = Call ''mean'' [VarRef ''v'']\<rparr>, \<lparr>Expr = Call ''max'' [VarRef ''v'']\<rparr>,
                    \<lparr>Expr = VarRef ''s''\<rparr>]\<rparr>
         sample_ic \<lparr>MinTime = 0, MaxTime = 1000\<rparr>
       = (Inl (Error (ErrExternal ''invalid time condition'')), [])"
  by (simp add: walkSelectInfo_def Select_def)

text \<open>
  C6, amended. For every statement whose iterator options \<open>newIteratorOptionsStmt\<close>
  builds without error, \<open>Select\<close> returns the error \<open>cannot select fields when selecting
  multiple aggregates\<close> exactly when the projection holds more than one call and at
  least one raw field reference, as \<open>newSelectInfo\<close> counts them. In particular, with at
  most one call, a call beside raw references does not produce this error.
\<close>

theorem C6_multiple_aggregates:
  assumes "newIteratorOptionsStmt env stmt sopt = Inr opt0"
  shows "fst (Select env stmt ic sopt) = Inl (Error ErrMultipleAggregates) \<longleftrightarrow>
           1 < length (calls (newSelectInfo env stmt)) \<and> 0 < length (refs (newSelectInfo env stmt))"
proof (cases "1 < length (calls (newSelectInfo env stmt)) \<and> 0 < length (refs (newSelectInfo env stmt))")
  case True
  with assms show ?thesis by (simp add: Select_def Let_def)
next
  case False
  with Select_failure(1) [OF assms False] show ?thesis by blast
qed

text \<open>
  On the sample storage \<open>SELECT mean(v), max(v), s\<close> is refused with this error.
\<close>

theorem C6_multiple_aggregates_witness:
  "newIteratorOptionsStmt sample_env
       \<lparr>Fields = [\<lparr>Expr = Call ''mean'' [VarRef ''v'']\<rparr>, \<lparr>Expr = Call ''max'' [VarRef ''v'']\<rparr>,
                  \<lparr>Expr = VarRef ''s''\<rparr>]\<rparr>
       \<lparr>MinTime = 0, MaxTime = 1000\<rparr> = Inr sample_opt
   \<and> fst (Select sample_env
       \<lparr>Fields = [\<lparr>Expr = Call ''mean'' [VarRef ''v'']\<rparr>, \<lparr>Expr = Call ''max'' [VarRef ''v'']\<rparr>,
                  \<lparr>Expr = VarRef ''s''\<rparr>]\<rparr>
       sample_ic \<lparr>MinTime = 0, MaxTime = 1000\<rparr>) = Inl (Error ErrMultipleAggregates)"
proof -
  let ?stmt = "\<lparr>Fields = [\<lparr>Expr = Call ''mean'' [VarRef ''v'']\<rparr>, \<lparr>Expr = Call ''max'' [VarRef ''v'']\<rparr>,
                  \<lparr>Expr = VarRef ''s''\<rparr>]\<rparr>"
  have o: "newIteratorOptionsStmt sample_env ?stmt \<lparr>MinTime = 0, MaxTime = 1000\<rparr> = Inr sample_opt"
    by (simp add: sample_env_simps)
  have c: "1 < length (calls (newSelectInfo sample_env ?stmt))
      \<and> 0 < length (refs (newSelectInfo sample_env ?stmt))"
    by (simp add: walkSelectInfo_def sample_env_simps)
  from C6_multiple_aggregates [OF o, of sample_ic] c o show ?thesis by simp
qed

text \<open>
  C7, as stated, fails: a \<open>distinct\<close> call returns before the fill wrap. On the sample
  storage, with a non-zero interval and the fill policy \<open>NullFill\<close>, \<open>distinct(v)\<close> is the
  interval iterator over the distinct iterator, with no fill iterator around it.
\<close>

theorem C7_distinct_counterexample:
  "buildExprIterator sample_env (Call ''distinct'' [VarRef ''v'']) sample_ic
       (sample_opt\<lparr>opt_Interval := \<lparr>Duration = 10, Offset = 0\<rparr>\<rparr>) =
     (Inr (IntervalIterator
             (DistinctIterator
                (StorageIterator Float
                   (sample_opt\<lparr>opt_Expr := Some (VarRef ''v''),
                               opt_Interval := \<lparr>Duration = 10, Offset = 0\<rparr>\<rparr>))
                (sample_opt\<lparr>opt_Expr := Some (Call ''distinct'' [VarRef ''v'']),
                            opt_Interval := \<lparr>Duration = 10, Offset = 0\<rparr>\<rparr>))
             (sample_opt\<lparr>opt_Expr := Some (Call ''distinct'' [VarRef ''v'']),
                         opt_Interval := \<lparr>Duration = 10, Offset = 0\<rparr>\<rparr>)),
      [CreateIteratorCall (sample_opt\<lparr>opt_Expr := Some (VarRef ''v''),
                                       opt_Interval := \<lparr>Duration = 10, Offset = 0\<rparr>\<rparr>)])
   \<and> \<not> IsZero (opt_Interval (sample_opt\<lparr>opt_Interval := \<lparr>Duration = 10, Offset = 0\<rparr>\<rparr>))
   \<and> opt_Fill (sample_opt\<lparr>opt_Interval := \<lparr>Duration = 10, Offset = 0\<rparr>\<rparr>) \<noteq> NoFill"
  by (simp add: sample_run_simps sample_opt_def)

text \<open>
  C7, amended. For every \<open>Call\<close> expression that \<open>buildExprIterator\<close> builds, the result
  is the fill iterator exactly when \<open>opt.Interval\<close> is non-zero, \<open>opt.Fill\<close> is not
  \<open>NoFill\<close>, and the name of the call is none of \<open>distinct\<close>, \<open>derivative\<close>,
  \<open>non_negative_derivative\<close>. In particular, when the interval is zero there is no fill
  wrap, whatever the fill policy.
\<close>

theorem C7_fill_wrap:
  assumes "buildExprIterator env (Call name args) ic opt = (Inr r, tr)"
  shows "isFillIterator r \<longleftrightarrow>
           (\<not> IsZero (opt_Interval opt) \<and> opt_Fill opt \<noteq> NoFill
            \<and> name \<notin> {''distinct'', ''derivative'', ''non_negative_derivative''})"
proof -
  let ?opt = "opt\<lparr>opt_Expr := Some (Call name args)\<rparr>"
  let ?r0 = "case args of [] \<Rightarrow> (Inl (Panic IndexOutOfRange), [])
             | a # _ \<Rightarrow> buildExprIterator env a ic ?opt"
  from assms have b: "buildCall env name args ic ?opt ?r0 = (Inr r, tr)" by simp
  define c1 where "c1 \<longleftrightarrow> name = ''top''"
  define c2 where "c2 \<longleftrightarrow> name = ''bottom''"
  define c3 where "c3 \<longleftrightarrow> name = ''derivative'' \<or> name = ''non_negative_derivative''"
  define c4 where "c4 \<longleftrightarrow> name = ''distinct''"
  note cs = c1_def c2_def c3_def c4_def
  consider (top) c1 | (bottom) c2 | (derivative) c3 | (distinct) c4
    | (other) "\<not> c1" "\<not> c2" "\<not> c3" "\<not> c4"
    by blast
  then show ?thesis
  proof cases
    case top
    then have n: "name = ''top''" by (simp add: cs)
    from b n obtain itr where
      i: "buildSelector env TopIterator ErrTopArguments args ?opt ?r0 = (Inr itr, tr)"
      and r: "r = (if \<not> IsZero (opt_Interval opt) \<and> opt_Fill opt \<noteq> NoFill
                   then FillIterator itr (Call name args) ?opt else itr)"
      by (auto simp: buildCall_def buildCallInner_def Let_def split: prod.splits sum.splits)
    from buildSelector_Inr [OF i] r n show ?thesis
      by (auto simp: isFillIterator_def)
  next
    case bottom
    then have n: "name = ''bottom''" by (simp add: cs)
    from b n obtain itr where
      i: "buildSelector env BottomIterator ErrBottomArguments args ?opt ?r0 = (Inr itr, tr)"
      and r: "r = (if \<not> IsZero (opt_Interval opt) \<and> opt_Fill opt \<noteq> NoFill
                   then FillIterator itr (Call name args) ?opt else itr)"
      by (auto simp: buildCall_def buildCallInner_def Let_def split: prod.splits sum.splits)
    from buildSelector_Inr [OF i] r n show ?thesis
      by (auto simp: isFillIterator_def)
  next
    case derivative
    then have n: "name = ''derivative'' \<or> name = ''non_negative_derivative''" by (simp add: cs)
    from buildCall_derivative [OF b n] n show ?thesis
      by (auto simp: isFillIterator_def)
  next
    case distinct
    then have n: "name = ''distinct''" by (simp add: cs)
    from buildCall_distinct [OF b n] n show ?thesis
      by (auto simp: isFillIterator_def)
  next
    case other
    then have n: "name \<notin> {''distinct'', ''derivative'', ''non_negative_derivative'', ''top'', ''bottom''}"
      by (simp add: cs)
    from buildCall_other [OF b n] n show ?thesis
      by (auto simp: isFillIterator_def)
  qed
qed

text \<open>
  On the sample storage, with a non-zero interval and the fill policy \<open>NullFill\<close>,
  \<open>mean(v)\<close> is the fill iterator over the interval iterator.
\<close>

theorem C7_fill_wrap_witness:
  "buildExprIterator sample_env (Call ''mean'' [VarRef ''v'']) sample_ic
       (sample_opt\<lparr>opt_Interval := \<lparr>Duration = 10, Offset = 0\<rparr>\<rparr>) =
     (Inr (FillIterator
            (IntervalIterator
               (StorageIterator Float
                  (sample_opt\<lparr>opt_Expr := Some (Call ''mean'' [VarRef ''v'']),
                              opt_Interval := \<lparr>Duration = 10, Offset = 0\<rparr>\<rparr>))
               (sample_opt\<lparr>opt_Expr := Some (Call ''mean'' [VarRef ''v'']),
                           opt_Interval := \<lparr>Duration = 10, Offset = 0\<rparr>\<rparr>))
            (Call ''mean'' [VarRef ''v''])
            (sample_opt\<lparr>opt_Expr := Some (Call ''mean'' [VarRef ''v'']),
                        opt_Interval := \<lparr>Duration = 10, Offset = 0\<rparr>\<rparr>)),
      [CreateIteratorCall (sample_opt\<lparr>opt_Expr := Some (Call ''mean'' [VarRef ''v'']),
                                       opt_Interval := \<lparr>Duration = 10, Offset = 0\<rparr>\<rparr>)])
   \<and> isFillIterator (FillIterator
            (IntervalIterator
               (StorageIterator Float
                  (sample_opt\<lparr>opt_Expr := Some (Call ''mean'' [VarRef ''v'']),
                              opt_Interval := \<lparr>Duration = 10, Offset = 0\<rparr>\<rparr>))
               (sample_opt\<lparr>opt_Expr := Some (Call ''mean'' [VarRef ''v'']),
                           opt_Interval := \<lparr>Duration = 10, Offset = 0\<rparr>\<rparr>))
            (Call ''mean'' [VarRef ''v''])
            (sample_opt\<lparr>opt_Expr := Some (Call ''mean'' [VarRef ''v'']),
                        opt_Interval := \<lparr>Duration = 10, Offset = 0\<rparr>\<rparr>))"
proof -
  let ?o = "sample_opt\<lparr>opt_Expr := Some (Call ''mean'' [VarRef ''v'']),
                        opt_Interval := \<lparr>Duration = 10, Offset = 0\<rparr>\<rparr>"
  have e: "buildExprIterator sample_env (Call ''mean'' [VarRef ''v'']) sample_ic
       (sample_opt\<lparr>opt_Interval := \<lparr>Duration = 10, Offset = 0\<rparr>\<rparr>) =
     (Inr (FillIterator (IntervalIterator (StorageIterator Float ?o) ?o) (Call ''mean'' [VarRef ''v'']) ?o),
      [CreateIteratorCall ?o])"
    by (simp add: sample_run_simps sample_opt_def)
  from C7_fill_wrap [OF e] e show ?thesis by (simp add: IsZero_def sample_opt_def)
qed

text \<open>
  C8. For a binary expression whose two operands are both literals,
  \<open>buildExprIterator\<close> returns the error \<open>unable to construct an iterator from two
  literals\<close> (with the two operands), and the trace of calls is empty: no iterator is
  created, whatever the iterator creator is.
\<close>

theorem C8_two_literals:
  "isLiteral lhs \<Longrightarrow> isLiteral rhs \<Longrightarrow>
     buildExprIterator env (BinaryExpr op lhs rhs) ic opt = (Inl (Error (ErrTwoLiterals lhs rhs)), [])"
  by simp

text \<open>
  The expression \<open>1.0 + 'a'\<close> on the sample storage.
\<close>

theorem C8_two_literals_witness:
  "isLiteral (NumberLiteral 0x3FF0000000000000) \<and> isLiteral (StringLiteral ''a'')
   \<and> buildExprIterator sample_env (BinaryExpr ADD (NumberLiteral 0x3FF0000000000000) (StringLiteral ''a''))
        sample_ic sample_opt
      = (Inl (Error (ErrTwoLiterals (NumberLiteral 0x3FF0000000000000) (StringLiteral ''a''))), [])"
  using C8_two_literals [of "NumberLiteral 0x3FF0000000000000" "StringLiteral ''a''" sample_env ADD sample_ic sample_opt]
  by simp

text \<open>
  C9. For a table and for a group table: a second \<open>Close\<close> leaves the table as the
  first one left it and closes no cursor; \<open>Statistics\<close> after one or two calls of
  \<open>Close\<close> returns the zero statistics. Both methods are total: neither has a failing
  branch.
\<close>

theorem C9_close_idempotent:
  "Table_Close (fst (Table_Close t)) = (fst (Table_Close t), [])
   \<and> Table_Statistics (fst (Table_Close t)) = \<lparr>ScannedValues = 0, ScannedBytes = 0\<rparr>
   \<and> Table_Statistics (fst (Table_Close (fst (Table_Close t)))) = \<lparr>ScannedValues = 0, ScannedBytes = 0\<rparr>
   \<and> GroupTable_Close (fst (GroupTable_Close g)) = (fst (GroupTable_Close g), [])
   \<and> GroupTable_Statistics (fst (GroupTable_Close g)) = \<lparr>ScannedValues = 0, ScannedBytes = 0\<rparr>
   \<and> GroupTable_Statistics (fst (GroupTable_Close (fst (GroupTable_Close g))))
       = \<lparr>ScannedValues = 0, ScannedBytes = 0\<rparr>"
  by (cases "cur t"; cases "cur g"; cases "gc g")
     (simp_all add: Table_Close_def Table_Statistics_def GroupTable_Close_def
        GroupTable_Statistics_def)

text \<open>
  C10. \<open>SELECT v, 5\<close> on the sample storage: one raw field reference, no call, and a
  field that is a number literal. \<open>Select\<close> takes the aux-iterator pipeline, which
  reaches \<open>panic("unreachable")\<close> at the second field, after the primary iterator and
  the handle for \<open>v\<close> have been created. And for every field list whose every field
  reduces to a \<open>VarRef\<close> or a \<open>BinaryExpr\<close>, neither \<open>buildAuxIterators\<close> nor \<open>Select\<close>
  ends in this panic.
\<close>

theorem C10_unreachable_panic:
  "Select sample_env
       \<lparr>Fields = [\<lparr>Expr = VarRef ''v''\<rparr>, \<lparr>Expr = NumberLiteral 0x4014000000000000\<rparr>]\<rparr>
       sample_ic \<lparr>MinTime = 0, MaxTime = 1000\<rparr> =
     (Inl (Panic Unreachable),
      [CreateIteratorCall (sample_opt\<lparr>opt_Aux := [''v'']\<rparr>),
       SeriesKeysCall (sample_opt\<lparr>opt_Aux := [''v'']\<rparr>),
       IteratorCall
         (AuxIterator (StorageIterator Float (sample_opt\<lparr>opt_Aux := [''v'']\<rparr>)) []
            (sample_opt\<lparr>opt_Aux := [''v'']\<rparr>))
         ''v''])
   \<and> ((\<forall>f \<in> set flds. isVarRef (Reduce env (Expr f)) \<or> isBinaryExpr (Reduce env (Expr f)))
        \<longrightarrow> fst (buildAuxIterators env flds ic opt) \<noteq> Inl (Panic Unreachable))
   \<and> ((\<forall>f \<in> set (Fields stmt). isVarRef (Reduce env (Expr f)) \<or> isBinaryExpr (Reduce env (Expr f)))
        \<longrightarrow> fst (Select env stmt ic' sopt) \<noteq> Inl (Panic Unreachable))"
proof (intro conjI impI)
  show "Select sample_env
       \<lparr>Fields = [\<lparr>Expr = VarRef ''v''\<rparr>, \<lparr>Expr = NumberLiteral 0x4014000000000000\<rparr>]\<rparr>
       sample_ic \<lparr>MinTime = 0, MaxTime = 1000\<rparr> =
     (Inl (Panic Unreachable),
      [CreateIteratorCall (sample_opt\<lparr>opt_Aux := [''v'']\<rparr>),
       SeriesKeysCall (sample_opt\<lparr>opt_Aux := [''v'']\<rparr>),
       IteratorCall
         (AuxIterator (StorageIterator Float (sample_opt\<lparr>opt_Aux := [''v'']\<rparr>)) []
            (sample_opt\<lparr>opt_Aux := [''v'']\<rparr>))
         ''v''])"
    by (simp add: Select_def walkSelectInfo_def buildAuxIterators_def sample_env_simps
        sample_ic_simps sample_leafType_def sample_opt_def Let_def)
next
  assume "\<forall>f \<in> set flds. isVarRef (Reduce env (Expr f)) \<or> isBinaryExpr (Reduce env (Expr f))"
  then show "fst (buildAuxIterators env flds ic opt) \<noteq> Inl (Panic Unreachable)"
    by (rule buildAuxIterators_failure)
next
  assume all: "\<forall>f \<in> set (Fields stmt). isVarRef (Reduce env (Expr f)) \<or> isBinaryExpr (Reduce env (Expr f))"
  show "fst (Select env stmt ic' sopt) \<noteq> Inl (Panic Unreachable)"
  proof
    assume u: "fst (Select env stmt ic' sopt) = Inl (Panic Unreachable)"
    show False
    proof (cases "newIteratorOptionsStmt env stmt sopt")
      case (Inl msg)
      with u show ?thesis by (simp add: Select_def)
    next
      case (Inr opt0)
      show ?thesis
      proof (cases "1 < length (calls (newSelectInfo env stmt)) \<and> 0 < length (refs (newSelectInfo env stmt))")
        case True
        with Inr u show ?thesis by (simp add: Select_def Let_def)
      next
        case False
        from Select_failure(2) [OF Inr False u all] show ?thesis by simp
      qed
    qed
  qed
qed

text \<open>
  The field list of \<open>SELECT v, v + 1\<close> on the sample storage.
\<close>

theorem C10_unreachable_panic_witness:
  "isVarRef (Reduce sample_env (Expr \<lparr>Expr = VarRef ''v''\<rparr>))
   \<and> isBinaryExpr (Reduce sample_env
        (Expr \<lparr>Expr = BinaryExpr ADD (VarRef ''v'') (NumberLiteral 0x3FF0000000000000)\<rparr>))
   \<and> fst (buildAuxIterators sample_env
        [\<lparr>Expr = VarRef ''v''\<rparr>,
         \<lparr>Expr = BinaryExpr ADD (VarRef ''v'') (NumberLiteral 0x3FF0000000000000)\<rparr>]
        sample_ic (sample_opt\<lparr>opt_Aux := [''v'', ''v'']\<rparr>)) \<noteq> Inl (Panic Unreachable)"
proof -
  let ?flds = "[\<lparr>Expr = VarRef ''v''\<rparr>,
         \<lparr>Expr = BinaryExpr ADD (VarRef ''v'') (NumberLiteral 0x3FF0000000000000)\<rparr>]"
  have h: "\<forall>f \<in> set ?flds. isVarRef (Reduce sample_env (Expr f)) \<or> isBinaryExpr (Reduce sample_env (Expr f))"
    by (simp add: sample_env_simps isBinaryExpr_def)
  from C10_unreachable_panic [of ?flds sample_env sample_ic "sample_opt\<lparr>opt_Aux := [''v'', ''v'']\<rparr>"] h
  have "fst (buildAuxIterators sample_env ?flds sample_ic (sample_opt\<lparr>opt_Aux := [''v'', ''v'']\<rparr>))
          \<noteq> Inl (Panic Unreachable)"
    by blast
  then show ?thesis by (simp add: sample_env_simps isBinaryExpr_def)
qed

end
